theory Spec2Isabelle
  imports Main
begin

section \<open>JavaScript values handled by the upload endpoint\<close>

text \<open>
  The endpoint is the \<^verbatim>\<open>handler\<close> of the serverless function \<^verbatim>\<open>api/upload-video.js\<close>.
  The repository holds several revisions of it; the one embedded here is the formidable
  revision that stages the two files in \<^verbatim>\<open>./tmp\<close>, extracts \<^verbatim>\<open>teamId\<close> and passes an
  access-control list to the document store. The busboy revisions keep the files in memory
  and the earlier formidable revision has neither \<^verbatim>\<open>teamId\<close> nor the removal of staged
  files on a failed validation; the method test, the comparison of \<^verbatim>\<open>isPremium\<close> with
  \<^verbatim>\<open>'true'\<close>, \<^verbatim>\<open>parseInt\<close> for the duration, the tests of title, description, duration
  and the two files in the validation, and the order of the storage and persistence calls
  are the same in all of them.

  Strings are lists of code units in the range U+0000..U+00FF; a rejected promise or
  thrown \<^verbatim>\<open>Error\<close> is the left injection of a sum and carries \<^verbatim>\<open>error.message\<close>. Writes
  to the console are not part of the model.
\<close>

type_synonym bytes = string

text \<open>
  A property of \<^verbatim>\<open>fields\<close> or \<^verbatim>\<open>files\<close> as formidable delivers it: not there,
  one value, or an array of values.
\<close>

datatype 'a multi = Absent | Single 'a | Many "'a list"

text \<open>\<^verbatim>\<open>Array.isArray(x) ? x[0] : x\<close>; \<^verbatim>\<open>None\<close> is \<^verbatim>\<open>undefined\<close>.\<close>

fun scalar :: "'a multi \<Rightarrow> 'a option" where
  "scalar Absent = None"
| "scalar (Single v) = Some v"
| "scalar (Many []) = None"
| "scalar (Many (v # vs)) = Some v"

text \<open>\<^verbatim>\<open>Array.isArray(x) ? x[0] : x || ''\<close>: the default applies to the non-array branch only.\<close>

fun scalar_or_empty :: "string multi \<Rightarrow> string option" where
  "scalar_or_empty Absent = Some []"
| "scalar_or_empty (Single s) = Some s"
| "scalar_or_empty (Many vs) = scalar (Many vs)"

text \<open>\<^verbatim>\<open>Array.isArray(x) ? x[0] === 'true' : x === 'true'\<close>\<close>

fun is_true :: "string multi \<Rightarrow> bool" where
  "is_true Absent = False"
| "is_true (Single s) = (s = ''true'')"
| "is_true (Many []) = False"
| "is_true (Many (v # vs)) = (v = ''true'')"

text \<open>Truthiness of a value that is a string or \<^verbatim>\<open>undefined\<close>/\<^verbatim>\<open>null\<close>.\<close>

fun truthy :: "string option \<Rightarrow> bool" where
  "truthy None = False"
| "truthy (Some s) = (s \<noteq> [])"

subsection \<open>Numbers produced by \<^verbatim>\<open>parseInt\<close>\<close>

text \<open>
  \<^verbatim>\<open>parseInt\<close> returns \<^verbatim>\<open>NaN\<close>, an infinity, or a Number with an integer value;
  \<^verbatim>\<open>-0\<close> is identified with \<^verbatim>\<open>0\<close>.
\<close>

datatype jsnum = NaN | Infinity bool | Num int

fun isNaN :: "jsnum \<Rightarrow> bool" where
  "isNaN NaN = True"
| "isNaN (Infinity negative) = False"
| "isNaN (Num v) = False"

fun bitlen :: "nat \<Rightarrow> nat" where
  "bitlen n = (if n = 0 then 0 else Suc (bitlen (n div 2)))"

declare bitlen.simps [simp del]

text \<open>
  The Number value of a natural number: binary64 has 53 significant bits, larger values
  are rounded to the nearest representable one, ties to the even significand, and
  \<^verbatim>\<open>None\<close> stands for the overflow to infinity.
\<close>

definition round_binary64 :: "nat \<Rightarrow> nat option" where
  "round_binary64 m =
     (if m < 2 ^ 53 then Some m
      else let k = bitlen m - 53;
               q = m div 2 ^ k;
               r = m mod 2 ^ k;
               q' = (if 2 ^ k < 2 * r \<or> (2 * r = 2 ^ k \<and> odd q) then q + 1 else q);
               v = q' * 2 ^ k
           in if 2 ^ 1024 \<le> v then None else Some v)"

definition to_number :: "bool \<Rightarrow> nat \<Rightarrow> jsnum" where
  "to_number negative m =
     (case round_binary64 m of
        None \<Rightarrow> Infinity negative
      | Some v \<Rightarrow> Num (if negative then - int v else int v))"

text \<open>\<^verbatim>\<open>StrWhiteSpaceChar\<close> within U+0000..U+00FF: TAB, LF, VT, FF, CR, SP, NBSP.\<close>

definition isStrWhiteSpaceChar :: "char \<Rightarrow> bool" where
  "isStrWhiteSpaceChar c =
     (c = CHR 0x09 \<or> c = CHR 0x0A \<or> c = CHR 0x0B \<or> c = CHR 0x0C \<or> c = CHR 0x0D
      \<or> c = CHR 0x20 \<or> c = CHR 0xA0)"

definition isDigit :: "char \<Rightarrow> bool" where
  "isDigit c = (48 \<le> (of_char c :: nat) \<and> (of_char c :: nat) \<le> 57)"

definition digitVal :: "char \<Rightarrow> nat" where
  "digitVal c = of_char c - 48"

definition digits_value :: "string \<Rightarrow> nat" where
  "digits_value z = foldl (\<lambda>a c. 10 * a + digitVal c) 0 z"

text \<open>\<^verbatim>\<open>ToString\<close> of a value that is a string or \<^verbatim>\<open>undefined\<close>.\<close>

fun ToString :: "string option \<Rightarrow> string" where
  "ToString None = ''undefined''"
| "ToString (Some s) = s"

text \<open>
  \<^verbatim>\<open>parseInt(v, 10)\<close>: leading white space is dropped, one sign is read, the longest run
  of decimal digits that follows is the numeral; with radix 10 no \<^verbatim>\<open>0x\<close> prefix is read.
  The result is the Number value of the numeral. (For a numeral of more than 20 digits the
  language lets an implementation round a truncated numeral; here the exact value is
  rounded.)
\<close>

definition parseInt :: "string option \<Rightarrow> jsnum" where
  "parseInt v =
     (let s = dropWhile isStrWhiteSpaceChar (ToString v);
          negative = (case s of [] \<Rightarrow> False | c # cs \<Rightarrow> c = CHR ''-'');
          s' = (case s of [] \<Rightarrow> [] | c # cs \<Rightarrow> if c = CHR ''+'' \<or> c = CHR ''-'' then cs else s);
          z = takeWhile isDigit s'
      in if z = [] then NaN else to_number negative (digits_value z))"

text \<open>
  A text with a leading integer, as the specification of the duration field words it:
  white space, an optional sign, the digits, and a rest that does not go on with a digit.
  The integer it denotes is \<open>signed_value\<close>.
\<close>

definition leading_integer :: "string \<Rightarrow> string \<Rightarrow> string \<Rightarrow> string \<Rightarrow> string \<Rightarrow> bool" where
  "leading_integer s ws sg ds rest =
     (s = ws @ sg @ ds @ rest \<and> (\<forall>c\<in>set ws. isStrWhiteSpaceChar c) \<and>
      (sg = [] \<or> sg = ''+'' \<or> sg = ''-'') \<and> ds \<noteq> [] \<and> (\<forall>c\<in>set ds. isDigit c) \<and>
      (rest = [] \<or> \<not> isDigit (hd rest)))"

definition signed_value :: "string \<Rightarrow> string \<Rightarrow> int" where
  "signed_value sg ds = (if sg = ''-'' then - int (digits_value ds) else int (digits_value ds))"

text \<open>POSIX \<^verbatim>\<open>path.basename\<close>: trailing separators are ignored, the last segment is returned.\<close>

definition basename :: "string \<Rightarrow> string" where
  "basename p =
     rev (takeWhile (\<lambda>c. c \<noteq> CHR ''/'') (dropWhile (\<lambda>c. c = CHR ''/'') (rev p)))"

section \<open>Data model\<close>

text \<open>A file object of formidable: the attributes the handler reads.\<close>

record upload_file =
  filepath :: string
  originalFilename :: "string option"
  mimetype :: "string option"

text \<open>
  What \<^verbatim>\<open>form.parse\<close> hands to its callback on success, and the files it wrote below
  \<^verbatim>\<open>uploadDir\<close> while reading the stream (path and content, in writing order).
\<close>

record form_data =
  form_fields :: "string \<Rightarrow> string multi"
  form_files :: "string \<Rightarrow> upload_file multi"
  staged :: "(string \<times> bytes) list"

text \<open>
  The request: \<^verbatim>\<open>req.method\<close>, and what parsing its body stream yields (\<^verbatim>\<open>err\<close> or
  the form).
\<close>

record request =
  req_method :: string
  form :: "string + form_data"

datatype role = Role_any | Role_team string

datatype permission = Permission_read role | Permission_update role | Permission_delete role

record video_data =
  title :: string
  description :: string
  duration :: jsnum
  isPremium :: bool
  genre :: "string option"
  tags :: "string option"
  thumbnailUrl :: string
  videoUrl :: string
  viewsCount :: nat
  uploadDate :: string

text \<open>A document as the document store returns it.\<close>

record document =
  doc_id :: string
  doc_data :: video_data
  doc_permissions :: "permission list"

text \<open>An object held by the blob store.\<close>

record stored_blob =
  pathname :: string
  content :: bytes
  access :: string
  contentType :: "string option"
  url :: string

text \<open>The response: \<^verbatim>\<open>res.status(n).json(body)\<close>.\<close>

datatype json =
    Error_json string string
  | Error_details_json string string string
  | Success_json string document string string

type_synonym response = "nat \<times> json"

section \<open>Collaborators\<close>

text \<open>
  Every call that leaves the handler is recorded with its arguments and its outcome:
  the file system (\<^verbatim>\<open>mkdirSync\<close>, formidable's parse, \<^verbatim>\<open>readFile\<close>, \<^verbatim>\<open>unlink\<close>),
  the blob store (\<^verbatim>\<open>put\<close>) and the document store (\<^verbatim>\<open>createDocument\<close>).
\<close>

datatype event =
    Ev_mkdirSync "string option"
  | Ev_parse "string option"
  | Ev_readFile string "string option"
  | Ev_put string bytes string "string option" "string + string"
  | Ev_unlink string "string option"
  | Ev_createDocument "string option" "string option" string video_data "permission list"
      "string + document"

record world =
  tmp_dir :: bool
  tmp :: "string \<Rightarrow> bytes option"
  blob_store :: "stored_blob list"
  documents :: "document list"
  calls :: "event list"

text \<open>
  The behaviour of the collaborators is a parameter: each outcome may depend on the
  calls made so far and on the arguments. \<^verbatim>\<open>Inl\<close> and \<^verbatim>\<open>Some\<close> are error messages.
\<close>

record env =
  APPWRITE_DATABASE_ID :: "string option"
  APPWRITE_COLLECTION_ID :: "string option"
  mkdir_error :: "string option"
  readFile_error :: "event list \<Rightarrow> string \<Rightarrow> string option"
  unlink_error :: "event list \<Rightarrow> string \<Rightarrow> string option"
  put_result :: "event list \<Rightarrow> string \<Rightarrow> bytes \<Rightarrow> string option \<Rightarrow> string + string"
  createDocument_result ::
    "event list \<Rightarrow> string \<Rightarrow> video_data \<Rightarrow> permission list \<Rightarrow> string + document"
  ID_unique :: string
  now_ISO :: string

definition emit :: "event \<Rightarrow> world \<Rightarrow> world" where
  "emit e w = w\<lparr>calls := calls w @ [e]\<rparr>"

definition mkdirSync :: "env \<Rightarrow> world \<Rightarrow> (string + unit) \<times> world" where
  "mkdirSync env w =
     (case mkdir_error env of
        Some e \<Rightarrow> (Inl e, emit (Ev_mkdirSync (Some e)) w)
      | None \<Rightarrow> (Inr (), emit (Ev_mkdirSync None) (w\<lparr>tmp_dir := True\<rparr>)))"

text \<open>
  \<^verbatim>\<open>form.parse(req, callback)\<close>: on success the staged files are on disk. What a failed
  parse leaves on disk is formidable's business; the model leaves the directory as it was.
\<close>

definition written :: "(string \<times> bytes) list \<Rightarrow> (string \<Rightarrow> bytes option) \<Rightarrow> string \<Rightarrow> bytes option" where
  "written fs m = fold (\<lambda>(p, b) m. m(p \<mapsto> b)) fs m"

definition form_parse :: "request \<Rightarrow> world \<Rightarrow> (string + form_data) \<times> world" where
  "form_parse req w =
     (case form req of
        Inl err \<Rightarrow> (Inl err, emit (Ev_parse (Some err)) w)
      | Inr fd \<Rightarrow>
          (Inr fd,
           emit (Ev_parse None)
             (w\<lparr>tmp := written (staged fd) (tmp w)\<rparr>)))"

definition readFile :: "env \<Rightarrow> string \<Rightarrow> world \<Rightarrow> (string + bytes) \<times> world" where
  "readFile env p w =
     (case tmp w p of
        None \<Rightarrow> (Inl ''ENOENT'', emit (Ev_readFile p (Some ''ENOENT'')) w)
      | Some b \<Rightarrow>
          (case readFile_error env (calls w) p of
             Some e \<Rightarrow> (Inl e, emit (Ev_readFile p (Some e)) w)
           | None \<Rightarrow> (Inr b, emit (Ev_readFile p None) w)))"

definition unlink :: "env \<Rightarrow> string \<Rightarrow> world \<Rightarrow> (string + unit) \<times> world" where
  "unlink env p w =
     (case tmp w p of
        None \<Rightarrow> (Inl ''ENOENT'', emit (Ev_unlink p (Some ''ENOENT'')) w)
      | Some b \<Rightarrow>
          (case unlink_error env (calls w) p of
             Some e \<Rightarrow> (Inl e, emit (Ev_unlink p (Some e)) w)
           | None \<Rightarrow> (Inr (), emit (Ev_unlink p None) (w\<lparr>tmp := (tmp w)(p := None)\<rparr>))))"

text \<open>\<^verbatim>\<open>put(pathname, body, { access: 'public', contentType })\<close>; the result is the blob's url.\<close>

definition stored :: "string \<Rightarrow> bytes \<Rightarrow> string option \<Rightarrow> string \<Rightarrow> stored_blob" where
  "stored name body ctype u =
     \<lparr>pathname = name, content = body, access = ''public'', contentType = ctype, url = u\<rparr>"

definition put :: "env \<Rightarrow> string \<Rightarrow> bytes \<Rightarrow> string option \<Rightarrow> world \<Rightarrow> (string + string) \<times> world" where
  "put env name body ctype w =
     (case put_result env (calls w) name body ctype of
        Inl e \<Rightarrow> (Inl e, emit (Ev_put name body ''public'' ctype (Inl e)) w)
      | Inr u \<Rightarrow>
          (Inr u,
           emit (Ev_put name body ''public'' ctype (Inr u))
             (w\<lparr>blob_store := blob_store w @ [stored name body ctype u]\<rparr>)))"

definition createDocument ::
  "env \<Rightarrow> string \<Rightarrow> video_data \<Rightarrow> permission list \<Rightarrow> world \<Rightarrow> (string + document) \<times> world" where
  "createDocument env ident data perms w =
     (let r = createDocument_result env (calls w) ident data perms;
          e = Ev_createDocument (APPWRITE_DATABASE_ID env) (APPWRITE_COLLECTION_ID env)
                ident data perms r
      in case r of
           Inl msg \<Rightarrow> (Inl msg, emit e w)
         | Inr d \<Rightarrow> (Inr d, emit e (w\<lparr>documents := documents w @ [d]\<rparr>)))"

section \<open>The handler\<close>

text \<open>
  The \<^verbatim>\<open>filename\<close> option given to formidable: the name under which a file part is
  staged in \<^verbatim>\<open>./tmp\<close>. The arguments \<^verbatim>\<open>name\<close> and \<^verbatim>\<open>ext\<close> are computed by formidable.
\<close>

record part =
  part_name :: string
  part_originalFilename :: "string option"
  part_mimetype :: "string option"

text \<open>\<^verbatim>\<open>a || b\<close> for a string-or-null \<^verbatim>\<open>a\<close>.\<close>

fun or_else :: "string option \<Rightarrow> string \<Rightarrow> string" where
  "or_else None d = d"
| "or_else (Some s) d = (if s \<noteq> [] then s else d)"

definition filename :: "string \<Rightarrow> string \<Rightarrow> part \<Rightarrow> string" where
  "filename name ext p = or_else (part_originalFilename p) (name @ ext)"

text \<open>
  \<^verbatim>\<open>parseForm\<close>: the staging directory is created when it does not exist, then the body
  is parsed. An exception of \<^verbatim>\<open>mkdirSync\<close> inside the promise executor rejects the promise.
\<close>

definition parseForm :: "env \<Rightarrow> request \<Rightarrow> world \<Rightarrow> (string + form_data) \<times> world" where
  "parseForm env req w =
     (if tmp_dir w then form_parse req w
      else case mkdirSync env w of
             (Inl e, w1) \<Rightarrow> (Inl e, w1)
           | (Inr u, w1) \<Rightarrow> form_parse req w1)"

definition message_405 :: string where
  "message_405 = ''This endpoint only accepts POST requests for video uploads and metadata saving.''"

definition message_400 :: string where
  "message_400 = ''Missing required fields or invalid data.''"

definition message_500 :: string where
  "message_500 = ''Failed to process video upload and save metadata. Please check server logs for details and try again.''"

definition message_200 :: string where
  "message_200 = ''Video uploaded and metadata saved successfully!''"

text \<open>The responses of the error paths.\<close>

definition method_not_allowed :: response where
  "method_not_allowed = (405, Error_json ''Method Not Allowed'' message_405)"

definition bad_request :: response where
  "bad_request = (400, Error_json ''Bad Request'' message_400)"

definition internal_error :: "string \<Rightarrow> response" where
  "internal_error details = (500, Error_details_json ''Internal Server Error'' message_500 details)"

text \<open>The condition of the validation \<^verbatim>\<open>if\<close>.\<close>

definition invalid ::
  "string option \<Rightarrow> string option \<Rightarrow> jsnum \<Rightarrow> upload_file option \<Rightarrow> upload_file option \<Rightarrow>
   string option \<Rightarrow> bool" where
  "invalid t d n vf tf team =
     (\<not> truthy t \<or> \<not> truthy d \<or> isNaN n \<or> vf = None \<or> tf = None \<or> \<not> truthy team)"

text \<open>\<^verbatim>\<open>if (f?.filepath) await fs.unlink(f.filepath).catch(warn)\<close>\<close>

definition unlink_if_staged :: "env \<Rightarrow> upload_file option \<Rightarrow> world \<Rightarrow> world" where
  "unlink_if_staged env f w =
     (case f of
        None \<Rightarrow> w
      | Some x \<Rightarrow> if filepath x \<noteq> [] then snd (unlink env (filepath x) w) else w)"

text \<open>
  \<^verbatim>\<open>try { await unlink(video); await unlink(thumbnail) } catch { warn }\<close>: the second
  removal is not attempted when the first one fails.
\<close>

definition cleanup :: "env \<Rightarrow> upload_file \<Rightarrow> upload_file \<Rightarrow> world \<Rightarrow> world" where
  "cleanup env vf tf w =
     (case unlink env (filepath vf) w of
        (Inl e, w1) \<Rightarrow> w1
      | (Inr u, w1) \<Rightarrow> snd (unlink env (filepath tf) w1))"

definition videoData ::
  "env \<Rightarrow> string \<Rightarrow> string \<Rightarrow> jsnum \<Rightarrow> bool \<Rightarrow> string option \<Rightarrow> string option \<Rightarrow>
   string \<Rightarrow> string \<Rightarrow> video_data" where
  "videoData env t d n p g tg thumbnailBlob_url videoBlob_url =
     \<lparr>title = t, description = d, duration = n, isPremium = p, genre = g, tags = tg,
      thumbnailUrl = thumbnailBlob_url, videoUrl = videoBlob_url, viewsCount = 0,
      uploadDate = now_ISO env\<rparr>"

definition permissions :: "string \<Rightarrow> permission list" where
  "permissions teamId =
     [Permission_read Role_any,
      Permission_update (Role_team teamId),
      Permission_delete (Role_team teamId)]"

text \<open>\<^verbatim>\<open>f.originalFilename || path.basename(f.filepath)\<close>\<close>

definition blob_name :: "upload_file \<Rightarrow> string" where
  "blob_name f = or_else (originalFilename f) (basename (filepath f))"

text \<open>The statements of the \<^verbatim>\<open>try\<close> block after a passed validation.\<close>

definition upload_and_save ::
  "env \<Rightarrow> string \<Rightarrow> string \<Rightarrow> jsnum \<Rightarrow> bool \<Rightarrow> string option \<Rightarrow> string option \<Rightarrow>
   string \<Rightarrow> upload_file \<Rightarrow> upload_file \<Rightarrow> world \<Rightarrow> (string + response) \<times> world" where
  "upload_and_save env t d n p g tg teamId vf tf w =
     (case readFile env (filepath vf) w of
        (Inl e, w1) \<Rightarrow> (Inl e, w1)
      | (Inr videoFileBuffer, w1) \<Rightarrow>
     (case put env (blob_name vf) videoFileBuffer (mimetype vf) w1 of
        (Inl e, w2) \<Rightarrow> (Inl e, w2)
      | (Inr videoBlob_url, w2) \<Rightarrow>
     (case readFile env (filepath tf) w2 of
        (Inl e, w3) \<Rightarrow> (Inl e, w3)
      | (Inr thumbnailFileBuffer, w3) \<Rightarrow>
     (case put env (blob_name tf) thumbnailFileBuffer (mimetype tf) w3 of
        (Inl e, w4) \<Rightarrow> (Inl e, w4)
      | (Inr thumbnailBlob_url, w4) \<Rightarrow>
     (let w5 = cleanup env vf tf w4
      in case createDocument env (ID_unique env)
                (videoData env t d n p g tg thumbnailBlob_url videoBlob_url)
                (permissions teamId) w5 of
           (Inl e, w6) \<Rightarrow> (Inl e, w6)
         | (Inr newVideoDocument, w6) \<Rightarrow>
             (Inr (200, Success_json message_200 newVideoDocument videoBlob_url
                     thumbnailBlob_url), w6))))))"

text \<open>
  The \<^verbatim>\<open>try\<close> block; \<^verbatim>\<open>Inl\<close> is the exception that reaches \<^verbatim>\<open>catch\<close>. Past the
  validation the five checked values are defined, which the \<^verbatim>\<open>case\<close> makes explicit.
\<close>

definition handler_try :: "env \<Rightarrow> request \<Rightarrow> world \<Rightarrow> (string + response) \<times> world" where
  "handler_try env req w =
     (case parseForm env req w of
        (Inl err, w1) \<Rightarrow> (Inl err, w1)
      | (Inr fd, w1) \<Rightarrow>
          (let t = scalar (form_fields fd ''title'');
               d = scalar (form_fields fd ''description'');
               n = parseInt (scalar (form_fields fd ''duration''));
               p = is_true (form_fields fd ''isPremium'');
               g = scalar_or_empty (form_fields fd ''genre'');
               tg = scalar_or_empty (form_fields fd ''tags'');
               teamId = scalar (form_fields fd ''teamId'');
               videoFile = scalar (form_files fd ''videoFile'');
               thumbnailFile = scalar (form_files fd ''thumbnailFile'');
               rejected =
                 (Inr bad_request,
                  unlink_if_staged env thumbnailFile (unlink_if_staged env videoFile w1))
           in if invalid t d n videoFile thumbnailFile teamId then rejected
              else case (t, d, teamId, videoFile, thumbnailFile) of
                     (Some title_text, Some description_text, Some team, Some vf, Some tf) \<Rightarrow>
                       upload_and_save env title_text description_text n p g tg team vf tf w1
                   | _ \<Rightarrow> rejected))"

definition handler :: "env \<Rightarrow> request \<Rightarrow> world \<Rightarrow> response \<times> world" where
  "handler env req w =
     (if req_method req \<noteq> ''POST''
      then (method_not_allowed, w)
      else case handler_try env req w of
             (Inr res, w1) \<Rightarrow> (res, w1)
           | (Inl error_message, w1) \<Rightarrow> (internal_error error_message, w1))"

section \<open>Observations on a run\<close>

text \<open>The calls made between two states of the world.\<close>

definition new_calls :: "world \<Rightarrow> world \<Rightarrow> event list" where
  "new_calls w w' = drop (length (calls w)) (calls w')"

text \<open>The calls of a successful \<^verbatim>\<open>parseForm\<close>.\<close>

definition parse_prefix :: "world \<Rightarrow> event list" where
  "parse_prefix w = (if tmp_dir w then [] else [Ev_mkdirSync None]) @ [Ev_parse None]"

fun is_unlink :: "event \<Rightarrow> bool" where
  "is_unlink (Ev_unlink p r) = True"
| "is_unlink e = False"

fun is_put :: "event \<Rightarrow> bool" where
  "is_put (Ev_put name body acc ctype r) = True"
| "is_put e = False"

fun is_createDocument :: "event \<Rightarrow> bool" where
  "is_createDocument (Ev_createDocument db coll ident data perms r) = True"
| "is_createDocument e = False"

text \<open>The records submitted to the document store, in order.\<close>

fun submitted :: "event list \<Rightarrow> video_data list" where
  "submitted [] = []"
| "submitted (Ev_createDocument db coll ident data perms r # es) = data # submitted es"
| "submitted (e # es) = submitted es"

text \<open>The storage and persistence calls of a run, in order.\<close>

definition stage_calls :: "event list \<Rightarrow> event list" where
  "stage_calls evs = filter (\<lambda>e. is_put e \<or> is_createDocument e) evs"

text \<open>A call that ended in an error which the handler does not catch at the call.\<close>

fun failed :: "event \<Rightarrow> bool" where
  "failed (Ev_mkdirSync r) = (r \<noteq> None)"
| "failed (Ev_parse r) = (r \<noteq> None)"
| "failed (Ev_readFile p r) = (r \<noteq> None)"
| "failed (Ev_put name body acc ctype r) = isl r"
| "failed (Ev_unlink p r) = False"
| "failed (Ev_createDocument db coll ident data perms r) = isl r"

text \<open>The validation passed, with these values of the checked fields.\<close>

definition accepted ::
  "form_data \<Rightarrow> string \<Rightarrow> string \<Rightarrow> string \<Rightarrow> upload_file \<Rightarrow> upload_file \<Rightarrow> bool" where
  "accepted fd t d team vf tf =
     (scalar (form_fields fd ''title'') = Some t \<and> t \<noteq> [] \<and>
      scalar (form_fields fd ''description'') = Some d \<and> d \<noteq> [] \<and>
      \<not> isNaN (parseInt (scalar (form_fields fd ''duration''))) \<and>
      scalar (form_fields fd ''teamId'') = Some team \<and> team \<noteq> [] \<and>
      scalar (form_files fd ''videoFile'') = Some vf \<and>
      scalar (form_files fd ''thumbnailFile'') = Some tf)"

text \<open>The record the handler builds from an accepted form and the two blob urls.\<close>

definition record_of :: "env \<Rightarrow> form_data \<Rightarrow> string \<Rightarrow> string \<Rightarrow> string \<Rightarrow> string \<Rightarrow> video_data" where
  "record_of env fd t d thumbnailBlob_url videoBlob_url =
     videoData env t d (parseInt (scalar (form_fields fd ''duration'')))
       (is_true (form_fields fd ''isPremium'')) (scalar_or_empty (form_fields fd ''genre''))
       (scalar_or_empty (form_fields fd ''tags'')) thumbnailBlob_url videoBlob_url"


section \<open>Concrete requests and collaborators\<close>

text \<open>The scenario of the upload form: a trailer with its thumbnail, sent by team \<^verbatim>\<open>team_1\<close>.\<close>

definition w0 :: world where
  "w0 = \<lparr>tmp_dir = False, tmp = (\<lambda>p. None), blob_store = [], documents = [], calls = []\<rparr>"

definition trailer_video :: upload_file where
  "trailer_video =
     \<lparr>filepath = ''tmp/trailer.mp4'', originalFilename = Some ''trailer.mp4'',
      mimetype = Some ''video/mp4''\<rparr>"

definition trailer_thumbnail :: upload_file where
  "trailer_thumbnail =
     \<lparr>filepath = ''tmp/trailer.jpg'', originalFilename = Some ''trailer.jpg'',
      mimetype = Some ''image/jpeg''\<rparr>"

definition trailer_fields :: "string \<Rightarrow> string multi" where
  "trailer_fields k =
     (if k = ''title'' then Many [''Trailer'']
      else if k = ''description'' then Many [''A short trailer'']
      else if k = ''duration'' then Many [''120'']
      else if k = ''isPremium'' then Many [''true'']
      else if k = ''genre'' then Many [''Action'']
      else if k = ''tags'' then Many [''trailer,action'']
      else if k = ''teamId'' then Many [''team_1'']
      else Absent)"

definition trailer_files :: "string \<Rightarrow> upload_file multi" where
  "trailer_files k =
     (if k = ''videoFile'' then Many [trailer_video]
      else if k = ''thumbnailFile'' then Many [trailer_thumbnail]
      else Absent)"

definition trailer_form :: "(string \<Rightarrow> string multi) \<Rightarrow> form_data" where
  "trailer_form fs =
     \<lparr>form_fields = fs, form_files = trailer_files,
      staged = [(''tmp/trailer.mp4'', ''MP4''), (''tmp/trailer.jpg'', ''JPG'')]\<rparr>"

definition post :: "form_data \<Rightarrow> request" where
  "post fd = \<lparr>req_method = ''POST'', form = Inr fd\<rparr>"

definition trailer_request :: request where
  "trailer_request = post (trailer_form trailer_fields)"

text \<open>The trailer request with one field replaced.\<close>

definition trailer_with :: "string \<Rightarrow> string multi \<Rightarrow> request" where
  "trailer_with k v = post (trailer_form (trailer_fields(k := v)))"

definition trailer_get :: request where
  "trailer_get = \<lparr>req_method = ''GET'', form = Inr (trailer_form trailer_fields)\<rparr>"

text \<open>Two uploads of two requests whose files have the same name on the clients' disks.\<close>

definition upload_a :: part where
  "upload_a =
     \<lparr>part_name = ''videoFile'', part_originalFilename = Some ''clip.mp4'',
      part_mimetype = Some ''video/mp4''\<rparr>"

definition upload_b :: part where
  "upload_b =
     \<lparr>part_name = ''videoFile'', part_originalFilename = Some ''clip.mp4'',
      part_mimetype = Some ''application/octet-stream''\<rparr>"

text \<open>Collaborators that never fail.\<close>

definition service :: env where
  "service =
     \<lparr>APPWRITE_DATABASE_ID = Some ''db'', APPWRITE_COLLECTION_ID = Some ''videos'',
      mkdir_error = None,
      readFile_error = (\<lambda>h p. None),
      unlink_error = (\<lambda>h p. None),
      put_result = (\<lambda>h name body ctype. Inr (''https://blob/'' @ name)),
      createDocument_result =
        (\<lambda>h ident data perms. Inr \<lparr>doc_id = ''doc_1'', doc_data = data, doc_permissions = perms\<rparr>),
      ID_unique = ''unique()'',
      now_ISO = ''2025-01-01T00:00:00.000Z''\<rparr>"

text \<open>A blob store that rejects every upload, and one that rejects every upload after the first.\<close>

definition service_video_put_fails :: env where
  "service_video_put_fails =
     service\<lparr>put_result := (\<lambda>h name body ctype. Inl ''blob store unavailable'')\<rparr>"

text \<open>A document store that rejects every document.\<close>

definition service_createDocument_fails :: env where
  "service_createDocument_fails =
     service\<lparr>createDocument_result := (\<lambda>h ident data perms. Inl ''document store unavailable'')\<rparr>"

definition service_thumbnail_put_fails :: env where
  "service_thumbnail_put_fails =
     service\<lparr>put_result := (\<lambda>h name body ctype.
        if filter is_put h = [] then Inr (''https://blob/'' @ name)
        else Inl ''blob store unavailable'')\<rparr>"

section \<open>What a call does to the world\<close>

lemma emit_simps [simp]:
  "calls (emit e w) = calls w @ [e]"
  "tmp (emit e w) = tmp w"
  "tmp_dir (emit e w) = tmp_dir w"
  "blob_store (emit e w) = blob_store w"
  "documents (emit e w) = documents w"
  by (simp_all add: emit_def)

lemma readFile_cases:
  obtains (failed) e where "readFile env p w = (Inl e, emit (Ev_readFile p (Some e)) w)"
  | (ok) b where "readFile env p w = (Inr b, emit (Ev_readFile p None) w)" "tmp w p = Some b"
  by (cases "tmp w p"; cases "readFile_error env (calls w) p") (simp_all add: readFile_def)

lemma put_cases:
  obtains (failed) e where "put env n b c w = (Inl e, emit (Ev_put n b ''public'' c (Inl e)) w)"
  | (ok) u where "put env n b c w = (Inr u, emit (Ev_put n b ''public'' c (Inr u))
       (w\<lparr>blob_store := blob_store w @ [stored n b c u]\<rparr>))"
  by (cases "put_result env (calls w) n b c") (simp_all add: put_def)

lemma unlink_cases:
  obtains (failed) e where "unlink env p w = (Inl e, emit (Ev_unlink p (Some e)) w)"
  | (ok) "unlink env p w = (Inr (), emit (Ev_unlink p None) (w\<lparr>tmp := (tmp w)(p := None)\<rparr>))"
  by (cases "tmp w p"; cases "unlink_error env (calls w) p") (simp_all add: unlink_def)

lemma createDocument_cases:
  obtains (failed) e where "createDocument env i data perms w =
      (Inl e, emit (Ev_createDocument (APPWRITE_DATABASE_ID env) (APPWRITE_COLLECTION_ID env) i data perms (Inl e)) w)"
  | (ok) doc where "createDocument env i data perms w =
      (Inr doc, emit (Ev_createDocument (APPWRITE_DATABASE_ID env) (APPWRITE_COLLECTION_ID env) i data perms (Inr doc))
         (w\<lparr>documents := documents w @ [doc]\<rparr>))"
  by (cases "createDocument_result env (calls w) i data perms") (simp_all add: createDocument_def Let_def)

lemma cleanup_frame:
  "\<exists>us. calls (cleanup env vf tf w) = calls w @ us \<and> us \<noteq> [] \<and> (\<forall>x\<in>set us. is_unlink x)
     \<and> blob_store (cleanup env vf tf w) = blob_store w
     \<and> documents (cleanup env vf tf w) = documents w"
proof (cases rule: unlink_cases [of env "filepath vf" w])
  case (failed e)
  then show ?thesis by (simp add: cleanup_def)
next
  case ok
  note first = ok
  show ?thesis
  proof (cases rule: unlink_cases [of env "filepath tf" "emit (Ev_unlink (filepath vf) None) (w\<lparr>tmp := (tmp w)((filepath vf) := None)\<rparr>)"])
    case (failed e)
    with first show ?thesis by (simp add: cleanup_def)
  next
    case ok
    with first show ?thesis by (simp add: cleanup_def)
  qed
qed

lemma upload_and_save_cases:
  fixes env t d n p g tg team vf tf w
  defines "R \<equiv> upload_and_save env t d n p g tg team vf tf w"
  obtains
    (at_read_video) e where
      "fst R = Inl e"
      "calls (snd R) = calls w @ [Ev_readFile (filepath vf) (Some e)]"
      "blob_store (snd R) = blob_store w" "documents (snd R) = documents w" "tmp (snd R) = tmp w"
  | (at_put_video) e vb where
      "fst R = Inl e"
      "calls (snd R) = calls w @ [Ev_readFile (filepath vf) None,
         Ev_put (blob_name vf) vb ''public'' (mimetype vf) (Inl e)]"
      "blob_store (snd R) = blob_store w" "documents (snd R) = documents w" "tmp (snd R) = tmp w"
  | (at_read_thumbnail) e vb vurl where
      "fst R = Inl e"
      "calls (snd R) = calls w @ [Ev_readFile (filepath vf) None,
         Ev_put (blob_name vf) vb ''public'' (mimetype vf) (Inr vurl),
         Ev_readFile (filepath tf) (Some e)]"
      "blob_store (snd R) = blob_store w @ [stored (blob_name vf) vb (mimetype vf) vurl]"
      "documents (snd R) = documents w" "tmp (snd R) = tmp w"
  | (at_put_thumbnail) e vb vurl tb where
      "fst R = Inl e"
      "calls (snd R) = calls w @ [Ev_readFile (filepath vf) None,
         Ev_put (blob_name vf) vb ''public'' (mimetype vf) (Inr vurl),
         Ev_readFile (filepath tf) None,
         Ev_put (blob_name tf) tb ''public'' (mimetype tf) (Inl e)]"
      "blob_store (snd R) = blob_store w @ [stored (blob_name vf) vb (mimetype vf) vurl]"
      "documents (snd R) = documents w" "tmp (snd R) = tmp w"
  | (at_createDocument) e vb vurl tb turl us where
      "fst R = Inl e"
      "calls (snd R) = calls w @ [Ev_readFile (filepath vf) None,
         Ev_put (blob_name vf) vb ''public'' (mimetype vf) (Inr vurl),
         Ev_readFile (filepath tf) None,
         Ev_put (blob_name tf) tb ''public'' (mimetype tf) (Inr turl)] @ us @
         [Ev_createDocument (APPWRITE_DATABASE_ID env) (APPWRITE_COLLECTION_ID env) (ID_unique env)
            (videoData env t d n p g tg turl vurl) (permissions team) (Inl e)]"
      "us \<noteq> []" "\<forall>x\<in>set us. is_unlink x"
      "blob_store (snd R) = blob_store w @ [stored (blob_name vf) vb (mimetype vf) vurl,
         stored (blob_name tf) tb (mimetype tf) turl]"
      "documents (snd R) = documents w"
  | (at_end) doc vb vurl tb turl us where
      "fst R = Inr (200, Success_json message_200 doc vurl turl)"
      "calls (snd R) = calls w @ [Ev_readFile (filepath vf) None,
         Ev_put (blob_name vf) vb ''public'' (mimetype vf) (Inr vurl),
         Ev_readFile (filepath tf) None,
         Ev_put (blob_name tf) tb ''public'' (mimetype tf) (Inr turl)] @ us @
         [Ev_createDocument (APPWRITE_DATABASE_ID env) (APPWRITE_COLLECTION_ID env) (ID_unique env)
            (videoData env t d n p g tg turl vurl) (permissions team) (Inr doc)]"
      "us \<noteq> []" "\<forall>x\<in>set us. is_unlink x"
      "blob_store (snd R) = blob_store w @ [stored (blob_name vf) vb (mimetype vf) vurl,
         stored (blob_name tf) tb (mimetype tf) turl]"
      "documents (snd R) = documents w @ [doc]"
proof (cases rule: readFile_cases [of env "filepath vf" w])
  case (failed e)
  then show ?thesis
    using at_read_video [of e] by (simp add: R_def upload_and_save_def)
next
  case (ok vb)
  note r1 = ok(1)
  define w1 where "w1 = emit (Ev_readFile (filepath vf) None) w"
  show ?thesis
  proof (cases rule: put_cases [of env "blob_name vf" vb "mimetype vf" w1])
    case (failed e)
    then show ?thesis
      using at_put_video [of e vb] r1 by (simp add: R_def upload_and_save_def w1_def)
  next
    case (ok vurl)
    note r2 = ok
    define w2 where "w2 = emit (Ev_put (blob_name vf) vb ''public'' (mimetype vf) (Inr vurl))
       (w1\<lparr>blob_store := blob_store w1 @ [stored (blob_name vf) vb (mimetype vf) vurl]\<rparr>)"
    show ?thesis
    proof (cases rule: readFile_cases [of env "filepath tf" w2])
      case (failed e)
      then show ?thesis
        using at_read_thumbnail [of e vb vurl] r1 r2
        by (simp add: R_def upload_and_save_def w1_def w2_def)
    next
      case (ok tb)
      note r3 = ok(1)
      define w3 where "w3 = emit (Ev_readFile (filepath tf) None) w2"
      show ?thesis
      proof (cases rule: put_cases [of env "blob_name tf" tb "mimetype tf" w3])
        case (failed e)
        then show ?thesis
          using at_put_thumbnail [of e vb vurl tb] r1 r2 r3
          by (simp add: R_def upload_and_save_def w1_def w2_def w3_def)
      next
        case (ok turl)
        note r4 = ok
        define w4 where "w4 = emit (Ev_put (blob_name tf) tb ''public'' (mimetype tf) (Inr turl))
          (w3\<lparr>blob_store := blob_store w3 @ [stored (blob_name tf) tb (mimetype tf) turl]\<rparr>)"
        define w5 where "w5 = cleanup env vf tf w4"
        obtain us where us: "calls w5 = calls w4 @ us" "us \<noteq> []" "\<forall>x\<in>set us. is_unlink x"
          "blob_store w5 = blob_store w4" "documents w5 = documents w4"
          unfolding w5_def using cleanup_frame [of env vf tf w4] by blast
        have run: "R = (case createDocument env (ID_unique env) (videoData env t d n p g tg turl vurl)
                     (permissions team) w5 of
                  (Inl e, w6) \<Rightarrow> (Inl e, w6)
                | (Inr newVideoDocument, w6) \<Rightarrow>
                    (Inr (200, Success_json message_200 newVideoDocument vurl turl), w6))"
          using r1 r2 r3 r4
          by (simp add: R_def upload_and_save_def w1_def w2_def w3_def w4_def w5_def)
        show ?thesis
        proof (cases rule: createDocument_cases [of env "ID_unique env"
                 "videoData env t d n p g tg turl vurl" "permissions team" w5])
          case (failed e)
          with run have R: "R = (Inl e, emit (Ev_createDocument (APPWRITE_DATABASE_ID env)
              (APPWRITE_COLLECTION_ID env) (ID_unique env) (videoData env t d n p g tg turl vurl)
              (permissions team) (Inl e)) w5)"
            by simp
          show ?thesis
            by (rule at_createDocument [of e vb vurl tb turl us])
               (simp_all add: R us w1_def w2_def w3_def w4_def)
        next
          case (ok doc)
          with run have R: "R = (Inr (200, Success_json message_200 doc vurl turl),
              emit (Ev_createDocument (APPWRITE_DATABASE_ID env)
              (APPWRITE_COLLECTION_ID env) (ID_unique env) (videoData env t d n p g tg turl vurl)
              (permissions team) (Inr doc)) (w5\<lparr>documents := documents w5 @ [doc]\<rparr>))"
            by simp
          show ?thesis
            by (rule at_end [of doc vurl turl vb tb us])
               (simp_all add: R us w1_def w2_def w3_def w4_def)
        qed
      qed
    qed
  qed
qed


lemma parseForm_cases:
  obtains (parse_failed) e w1 where
      "parseForm env req w = (Inl e, w1)"
      "calls w1 = calls w @ [Ev_mkdirSync (Some e)]
       \<or> calls w1 = calls w @ butlast (parse_prefix w) @ [Ev_parse (Some e)]"
      "tmp w1 = tmp w" "blob_store w1 = blob_store w" "documents w1 = documents w"
  | (parse_ok) fd w1 where
      "form req = Inr fd" "parseForm env req w = (Inr fd, w1)"
      "calls w1 = calls w @ parse_prefix w"
      "tmp w1 = written (staged fd) (tmp w)" "blob_store w1 = blob_store w"
      "documents w1 = documents w"
  by (cases "tmp_dir w"; cases "mkdir_error env"; cases "form req")
     (simp_all add: parseForm_def mkdirSync_def form_parse_def parse_prefix_def)

lemma unlink_if_staged_frame:
  "\<exists>us. calls (unlink_if_staged env f w) = calls w @ us \<and> (\<forall>x\<in>set us. is_unlink x)
     \<and> blob_store (unlink_if_staged env f w) = blob_store w
     \<and> documents (unlink_if_staged env f w) = documents w"
proof (cases f)
  case None
  then show ?thesis by (simp add: unlink_if_staged_def)
next
  case (Some x)
  show ?thesis
  proof (cases "filepath x = []")
    case True
    with Some show ?thesis by (simp add: unlink_if_staged_def)
  next
    case False
    with Some show ?thesis
      by (cases rule: unlink_cases [of env "filepath x" w]) (simp_all add: unlink_if_staged_def)
  qed
qed

lemma rejected_frame:
  "\<exists>us. calls (unlink_if_staged env tf (unlink_if_staged env vf w)) = calls w @ us
     \<and> (\<forall>x\<in>set us. is_unlink x)
     \<and> blob_store (unlink_if_staged env tf (unlink_if_staged env vf w)) = blob_store w
     \<and> documents (unlink_if_staged env tf (unlink_if_staged env vf w)) = documents w"
proof -
  obtain us where us: "calls (unlink_if_staged env vf w) = calls w @ us" "\<forall>x\<in>set us. is_unlink x"
    "blob_store (unlink_if_staged env vf w) = blob_store w"
    "documents (unlink_if_staged env vf w) = documents w"
    using unlink_if_staged_frame [of env vf w] by blast
  obtain vs where vs: "calls (unlink_if_staged env tf (unlink_if_staged env vf w))
      = calls (unlink_if_staged env vf w) @ vs" "\<forall>x\<in>set vs. is_unlink x"
    "blob_store (unlink_if_staged env tf (unlink_if_staged env vf w))
      = blob_store (unlink_if_staged env vf w)"
    "documents (unlink_if_staged env tf (unlink_if_staged env vf w))
      = documents (unlink_if_staged env vf w)"
    using unlink_if_staged_frame [of env tf "unlink_if_staged env vf w"] by blast
  show ?thesis
    using us(2) vs(2) by (intro exI [of _ "us @ vs"]) (auto simp: us vs)
qed

lemma not_invalid_accepted:
  assumes "\<not> invalid (scalar (form_fields fd ''title'')) (scalar (form_fields fd ''description''))
      (parseInt (scalar (form_fields fd ''duration''))) (scalar (form_files fd ''videoFile''))
      (scalar (form_files fd ''thumbnailFile'')) (scalar (form_fields fd ''teamId''))"
  shows "\<exists>t d team vf tf. accepted fd t d team vf tf"
proof -
  from assms obtain t d team vf tf where
    "scalar (form_fields fd ''title'') = Some t" "scalar (form_fields fd ''description'') = Some d"
    "scalar (form_fields fd ''teamId'') = Some team" "scalar (form_files fd ''videoFile'') = Some vf"
    "scalar (form_files fd ''thumbnailFile'') = Some tf"
    unfolding invalid_def
    by (cases "scalar (form_fields fd ''title'')"; cases "scalar (form_fields fd ''description'')";
        cases "scalar (form_fields fd ''teamId'')"; cases "scalar (form_files fd ''videoFile'')";
        cases "scalar (form_files fd ''thumbnailFile'')") simp_all
  with assms show ?thesis
    unfolding invalid_def accepted_def by auto
qed


lemma handler_cases:
  fixes env req w
  defines "R \<equiv> handler env req w"
  obtains
    (not_post) "req_method req \<noteq> ''POST''" "R = (method_not_allowed, w)"
  | (not_parsed) e where
      "req_method req = ''POST''" "fst (parseForm env req w) = Inl e" "fst R = internal_error e"
      "new_calls w (snd R) = [Ev_mkdirSync (Some e)]
       \<or> new_calls w (snd R) = butlast (parse_prefix w) @ [Ev_parse (Some e)]"
      "blob_store (snd R) = blob_store w" "documents (snd R) = documents w"
      "tmp (snd R) = tmp w"
  | (rejected) fd us where
      "req_method req = ''POST''" "fst (parseForm env req w) = Inr fd"
      "invalid (scalar (form_fields fd ''title'')) (scalar (form_fields fd ''description''))
        (parseInt (scalar (form_fields fd ''duration''))) (scalar (form_files fd ''videoFile''))
        (scalar (form_files fd ''thumbnailFile'')) (scalar (form_fields fd ''teamId''))"
      "fst R = bad_request"
      "new_calls w (snd R) = parse_prefix w @ us" "\<forall>x\<in>set us. is_unlink x"
      "blob_store (snd R) = blob_store w" "documents (snd R) = documents w"
  | (read_video_failed) fd t d team vf tf e where
      "req_method req = ''POST''" "fst (parseForm env req w) = Inr fd" "accepted fd t d team vf tf"
      "fst R = internal_error e"
      "new_calls w (snd R) = parse_prefix w @ [Ev_readFile (filepath vf) (Some e)]"
      "blob_store (snd R) = blob_store w" "documents (snd R) = documents w"
      "tmp (snd R) = written (staged fd) (tmp w)"
  | (put_video_failed) fd t d team vf tf e vb where
      "req_method req = ''POST''" "fst (parseForm env req w) = Inr fd" "accepted fd t d team vf tf"
      "fst R = internal_error e"
      "new_calls w (snd R) = parse_prefix w @ [Ev_readFile (filepath vf) None,
         Ev_put (blob_name vf) vb ''public'' (mimetype vf) (Inl e)]"
      "blob_store (snd R) = blob_store w" "documents (snd R) = documents w"
      "tmp (snd R) = written (staged fd) (tmp w)"
  | (read_thumbnail_failed) fd t d team vf tf e vb vurl where
      "req_method req = ''POST''" "fst (parseForm env req w) = Inr fd" "accepted fd t d team vf tf"
      "fst R = internal_error e"
      "new_calls w (snd R) = parse_prefix w @ [Ev_readFile (filepath vf) None,
         Ev_put (blob_name vf) vb ''public'' (mimetype vf) (Inr vurl),
         Ev_readFile (filepath tf) (Some e)]"
      "blob_store (snd R) = blob_store w @ [stored (blob_name vf) vb (mimetype vf) vurl]"
      "documents (snd R) = documents w"
      "tmp (snd R) = written (staged fd) (tmp w)"
  | (put_thumbnail_failed) fd t d team vf tf e vb vurl tb where
      "req_method req = ''POST''" "fst (parseForm env req w) = Inr fd" "accepted fd t d team vf tf"
      "fst R = internal_error e"
      "new_calls w (snd R) = parse_prefix w @ [Ev_readFile (filepath vf) None,
         Ev_put (blob_name vf) vb ''public'' (mimetype vf) (Inr vurl),
         Ev_readFile (filepath tf) None,
         Ev_put (blob_name tf) tb ''public'' (mimetype tf) (Inl e)]"
      "blob_store (snd R) = blob_store w @ [stored (blob_name vf) vb (mimetype vf) vurl]"
      "documents (snd R) = documents w"
      "tmp (snd R) = written (staged fd) (tmp w)"
  | (createDocument_failed) fd t d team vf tf e vb vurl tb turl us where
      "req_method req = ''POST''" "fst (parseForm env req w) = Inr fd" "accepted fd t d team vf tf"
      "fst R = internal_error e"
      "new_calls w (snd R) = parse_prefix w @ [Ev_readFile (filepath vf) None,
         Ev_put (blob_name vf) vb ''public'' (mimetype vf) (Inr vurl),
         Ev_readFile (filepath tf) None,
         Ev_put (blob_name tf) tb ''public'' (mimetype tf) (Inr turl)] @ us @
         [Ev_createDocument (APPWRITE_DATABASE_ID env) (APPWRITE_COLLECTION_ID env) (ID_unique env)
            (record_of env fd t d turl vurl) (permissions team) (Inl e)]"
      "us \<noteq> []" "\<forall>x\<in>set us. is_unlink x"
      "blob_store (snd R) = blob_store w @ [stored (blob_name vf) vb (mimetype vf) vurl,
         stored (blob_name tf) tb (mimetype tf) turl]"
      "documents (snd R) = documents w"
  | (created) fd t d team vf tf doc vb vurl tb turl us where
      "req_method req = ''POST''" "fst (parseForm env req w) = Inr fd" "accepted fd t d team vf tf"
      "fst R = (200, Success_json message_200 doc vurl turl)"
      "new_calls w (snd R) = parse_prefix w @ [Ev_readFile (filepath vf) None,
         Ev_put (blob_name vf) vb ''public'' (mimetype vf) (Inr vurl),
         Ev_readFile (filepath tf) None,
         Ev_put (blob_name tf) tb ''public'' (mimetype tf) (Inr turl)] @ us @
         [Ev_createDocument (APPWRITE_DATABASE_ID env) (APPWRITE_COLLECTION_ID env) (ID_unique env)
            (record_of env fd t d turl vurl) (permissions team) (Inr doc)]"
      "us \<noteq> []" "\<forall>x\<in>set us. is_unlink x"
      "blob_store (snd R) = blob_store w @ [stored (blob_name vf) vb (mimetype vf) vurl,
         stored (blob_name tf) tb (mimetype tf) turl]"
      "documents (snd R) = documents w @ [doc]"
proof (cases "req_method req = ''POST''")
  case False
  then show ?thesis using not_post by (simp add: R_def handler_def)
next
  case True
  note post = True
  show ?thesis
  proof (cases rule: parseForm_cases [of env req w])
    case (parse_failed e w1)
    have "R = (internal_error e, w1)"
      using post parse_failed(1) by (simp add: R_def handler_def handler_try_def)
    then show ?thesis
      using parse_failed post
      by (intro not_parsed [of e]) (auto simp: new_calls_def)
  next
    case (parse_ok fd w1)
    show ?thesis
    proof (cases "invalid (scalar (form_fields fd ''title'')) (scalar (form_fields fd ''description''))
        (parseInt (scalar (form_fields fd ''duration''))) (scalar (form_files fd ''videoFile''))
        (scalar (form_files fd ''thumbnailFile'')) (scalar (form_fields fd ''teamId''))")
      case True
      obtain us where us: "calls (unlink_if_staged env (scalar (form_files fd ''thumbnailFile''))
           (unlink_if_staged env (scalar (form_files fd ''videoFile'')) w1)) = calls w1 @ us"
         "\<forall>x\<in>set us. is_unlink x"
         "blob_store (unlink_if_staged env (scalar (form_files fd ''thumbnailFile''))
           (unlink_if_staged env (scalar (form_files fd ''videoFile'')) w1)) = blob_store w1"
         "documents (unlink_if_staged env (scalar (form_files fd ''thumbnailFile''))
           (unlink_if_staged env (scalar (form_files fd ''videoFile'')) w1)) = documents w1"
        using rejected_frame by blast
      have "R = (bad_request, unlink_if_staged env (scalar (form_files fd ''thumbnailFile''))
           (unlink_if_staged env (scalar (form_files fd ''videoFile'')) w1))"
        using post True parse_ok(2) by (simp add: R_def handler_def handler_try_def Let_def)
      then show ?thesis
        using us parse_ok post True
        by (intro rejected [of fd us]) (simp_all add: new_calls_def)
    next
      case False
      then obtain t d team vf tf where acc: "accepted fd t d team vf tf"
        using not_invalid_accepted by blast
      let ?U = "upload_and_save env t d (parseInt (scalar (form_fields fd ''duration'')))
         (is_true (form_fields fd ''isPremium'')) (scalar_or_empty (form_fields fd ''genre''))
         (scalar_or_empty (form_fields fd ''tags'')) team vf tf w1"
      have R: "R = (case ?U of (Inr res, w2) \<Rightarrow> (res, w2)
                     | (Inl error_message, w2) \<Rightarrow> (internal_error error_message, w2))"
        using post False parse_ok(2) acc
        by (simp add: R_def handler_def handler_try_def Let_def accepted_def)
      have fstR: "\<And>e. fst ?U = Inl e \<Longrightarrow> fst R = internal_error e"
        and fstR': "\<And>res. fst ?U = Inr res \<Longrightarrow> fst R = res"
        and sndR: "snd R = snd ?U"
        unfolding R by (cases ?U; cases "fst ?U"; simp)+
      have pf: "fst (parseForm env req w) = Inr fd" using parse_ok(2) by simp
      show ?thesis
      proof (cases rule: upload_and_save_cases [of env t d "parseInt (scalar (form_fields fd ''duration''))"
         "is_true (form_fields fd ''isPremium'')" "scalar_or_empty (form_fields fd ''genre'')"
         "scalar_or_empty (form_fields fd ''tags'')" team vf tf w1])
        case (at_read_video e)
        then show ?thesis
          using post pf acc fstR [of e] sndR parse_ok(3-)
          by (intro read_video_failed [of fd t d team vf tf e])
             (simp_all add: new_calls_def)
      next
        case (at_put_video e vb)
        then show ?thesis
          using post pf acc fstR [of e] sndR parse_ok(3-)
          by (intro put_video_failed [of fd t d team vf tf e vb])
             (simp_all add: new_calls_def)
      next
        case (at_read_thumbnail e vb vurl)
        then show ?thesis
          using post pf acc fstR [of e] sndR parse_ok(3-)
          by (intro read_thumbnail_failed [of fd t d team vf tf e vb vurl])
             (simp_all add: new_calls_def)
      next
        case (at_put_thumbnail e vb vurl tb)
        then show ?thesis
          using post pf acc fstR [of e] sndR parse_ok(3-)
          by (intro put_thumbnail_failed [of fd t d team vf tf e vb vurl tb])
             (simp_all add: new_calls_def)
      next
        case (at_createDocument e vb vurl tb turl us)
        then show ?thesis
          using post pf acc fstR [of e] sndR parse_ok(3-)
          by (intro createDocument_failed [of fd t d team vf tf e vb vurl tb turl us])
             (simp_all add: new_calls_def record_of_def)
      next
        case (at_end doc vb vurl tb turl us)
        then show ?thesis
          using post pf acc fstR' sndR parse_ok(3-)
          by (intro created [of fd t d team vf tf doc vurl turl vb tb us])
             (simp_all add: new_calls_def record_of_def)
      qed
    qed
  qed
qed

section \<open>Auxiliary facts about traces and the concrete scenario\<close>

lemmas eval_defs = handler_def handler_try_def upload_and_save_def parseForm_def cleanup_def unlink_if_staged_def
  emit_def mkdirSync_def form_parse_def readFile_def unlink_def put_def createDocument_def
  invalid_def videoData_def permissions_def blob_name_def written_def stored_def basename_def
  w0_def trailer_video_def trailer_thumbnail_def trailer_fields_def trailer_files_def trailer_form_def post_def
  trailer_request_def trailer_with_def trailer_get_def service_def service_video_put_fails_def service_thumbnail_put_fails_def
  service_createDocument_fails_def
  new_calls_def parseInt_def to_number_def round_binary64_def digits_value_def digitVal_def isDigit_def isStrWhiteSpaceChar_def
  method_not_allowed_def bad_request_def internal_error_def stage_calls_def Let_def

lemma unlink_not_stage:
  assumes "\<forall>x\<in>set us. is_unlink x"
  shows "filter is_put us = []" "filter is_createDocument us = []" "stage_calls us = []"
    "submitted us = []" "\<forall>x\<in>set us. \<not> failed x"
proof -
  have *: "\<And>x. is_unlink x \<Longrightarrow> \<not> is_put x \<and> \<not> is_createDocument x \<and> \<not> failed x"
    by (case_tac x) simp_all
  with assms show "filter is_put us = []" "filter is_createDocument us = []" "stage_calls us = []"
    "\<forall>x\<in>set us. \<not> failed x"
    by (auto simp: stage_calls_def filter_empty_conv)
  from assms show "submitted us = []"
    by (induction us rule: submitted.induct) simp_all
qed

lemma new_calls_self: "new_calls w w = []"
  by (simp add: new_calls_def)

lemma submitted_append: "submitted (xs @ ys) = submitted xs @ submitted ys"
  by (induction xs rule: submitted.induct) simp_all

lemma stage_calls_append: "stage_calls (xs @ ys) = stage_calls xs @ stage_calls ys"
  by (simp add: stage_calls_def)

lemma parse_prefix_simps:
  "filter is_put (parse_prefix w) = []" "filter is_createDocument (parse_prefix w) = []"
  "stage_calls (parse_prefix w) = []" "submitted (parse_prefix w) = []"
  "\<forall>x\<in>set (parse_prefix w). \<not> failed x"
  by (simp_all add: parse_prefix_def stage_calls_def)

lemma accepted_valid:
  "accepted fd t d team vf tf \<Longrightarrow>
     truthy (scalar (form_fields fd ''title'')) \<and> truthy (scalar (form_fields fd ''description''))
     \<and> \<not> isNaN (parseInt (scalar (form_fields fd ''duration'')))
     \<and> scalar (form_files fd ''videoFile'') \<noteq> None \<and> scalar (form_files fd ''thumbnailFile'') \<noteq> None"
  by (simp add: accepted_def)

lemma trailer_parsed:
  "fst (parseForm service (trailer_with k v) w0) = Inr (trailer_form (trailer_fields(k := v)))"
  by (simp add: eval_defs)

section \<open>Auxiliary facts about \<^verbatim>\<open>parseInt\<close> and the submitted records\<close>

lemma round_binary64_exact: "m \<le> 2 ^ 53 \<Longrightarrow> round_binary64 m = Some m"
proof (cases "m < 2 ^ 53")
  case True
  then show ?thesis by (simp add: round_binary64_def)
next
  case False
  assume "m \<le> 2 ^ 53"
  with False have m: "m = 9007199254740992" by simp
  show ?thesis
    unfolding m by (simp add: round_binary64_def bitlen.simps Let_def)
qed

lemma to_number_exact:
  "m \<le> 2 ^ 53 \<Longrightarrow> to_number negative m = Num (if negative then - int m else int m)"
  by (simp add: to_number_def round_binary64_exact)

lemma to_number_not_NaN: "\<not> isNaN (to_number negative m)"
  by (simp add: to_number_def split: option.splits)

lemma digit_is_no_prefix_char:
  "isDigit c \<Longrightarrow> \<not> isStrWhiteSpaceChar c \<and> c \<noteq> CHR ''+'' \<and> c \<noteq> CHR ''-''"
  by (auto simp: isDigit_def isStrWhiteSpaceChar_def)

lemma sign_is_no_white_space:
  "\<not> isStrWhiteSpaceChar CHR ''+''" "\<not> isStrWhiteSpaceChar CHR ''-''"
  by (simp_all add: isStrWhiteSpaceChar_def)

lemma takeWhile_digits:
  assumes "\<forall>c\<in>set ds. isDigit c" and "rest = [] \<or> \<not> isDigit (hd rest)"
  shows "takeWhile isDigit (ds @ rest) = ds"
proof -
  have "takeWhile isDigit rest = []"
    using assms(2) by (cases rest) simp_all
  with assms(1) show ?thesis by (simp add: takeWhile_append2)
qed

lemma parseInt_leading_integer:
  assumes "leading_integer s ws sg ds rest"
  shows "parseInt (Some s) = to_number (sg = ''-'') (digits_value ds)"
proof -
  from assms have s: "s = ws @ sg @ ds @ rest" and ws: "\<forall>c\<in>set ws. isStrWhiteSpaceChar c"
    and sg: "sg = [] \<or> sg = ''+'' \<or> sg = ''-''" and ds: "ds \<noteq> []" "\<forall>c\<in>set ds. isDigit c"
    and rest: "rest = [] \<or> \<not> isDigit (hd rest)"
    by (simp_all add: leading_integer_def)
  from ds obtain d ds' where dd: "ds = d # ds'" and d: "isDigit d"
    by (cases ds) auto
  note nd = digit_is_no_prefix_char [OF d]
  have tw: "takeWhile isDigit (ds @ rest) = ds"
    using ds(2) rest by (rule takeWhile_digits)
  have dw: "dropWhile isStrWhiteSpaceChar s = sg @ ds @ rest"
    using sg ws nd unfolding s dd
    by (auto simp: dropWhile_append2 sign_is_no_white_space)
  from sg show ?thesis
  proof (elim disjE)
    assume "sg = []"
    then show ?thesis
      using tw nd ds(1) by (simp add: parseInt_def dw dd Let_def)
  next
    assume "sg = ''+''"
    then show ?thesis
      using tw ds(1) by (simp add: parseInt_def dw Let_def)
  next
    assume "sg = ''-''"
    then show ?thesis
      using tw ds(1) by (simp add: parseInt_def dw Let_def)
  qed
qed

lemma parseInt_not_NaN_leading_integer:
  assumes "\<not> isNaN (parseInt (Some s))"
  shows "\<exists>ws sg ds rest. leading_integer s ws sg ds rest"
proof -
  define ws where "ws = takeWhile isStrWhiteSpaceChar s"
  define s1 where "s1 = dropWhile isStrWhiteSpaceChar s"
  define sg where "sg = (case s1 of [] \<Rightarrow> [] | c # cs \<Rightarrow> if c = CHR ''+'' \<or> c = CHR ''-'' then [c] else [])"
  define s2 where "s2 = (case s1 of [] \<Rightarrow> [] | c # cs \<Rightarrow> if c = CHR ''+'' \<or> c = CHR ''-'' then cs else s1)"
  define ds where "ds = takeWhile isDigit s2"
  define rest where "rest = dropWhile isDigit s2"
  have 1: "s = ws @ s1" by (simp add: ws_def s1_def)
  have 2: "s1 = sg @ s2" by (cases s1) (simp_all add: sg_def s2_def)
  have 3: "s2 = ds @ rest" by (simp add: ds_def rest_def)
  have 4: "\<forall>c\<in>set ws. isStrWhiteSpaceChar c"
    by (auto simp: ws_def dest: set_takeWhileD)
  have 5: "sg = [] \<or> sg = ''+'' \<or> sg = ''-''"
    by (cases s1) (auto simp: sg_def)
  have 6: "\<forall>c\<in>set ds. isDigit c"
    by (auto simp: ds_def dest: set_takeWhileD)
  have 7: "rest = [] \<or> \<not> isDigit (hd rest)"
    unfolding rest_def using hd_dropWhile [of isDigit s2] by blast
  have "parseInt (Some s) = (if ds = [] then NaN else to_number (s1 \<noteq> [] \<and> hd s1 = CHR ''-'') (digits_value ds))"
    by (cases s1) (simp_all add: parseInt_def Let_def s1_def [symmetric] s2_def ds_def)
  with assms have 8: "ds \<noteq> []" by auto
  show ?thesis
    using 1 2 3 4 5 6 7 8 unfolding leading_integer_def by blast
qed

lemma parseInt_NaN_iff:
  "isNaN (parseInt (Some s)) \<longleftrightarrow> \<not> (\<exists>ws sg ds rest. leading_integer s ws sg ds rest)"
  using parseInt_not_NaN_leading_integer [of s] parseInt_leading_integer [of s] to_number_not_NaN
  by metis

lemma parseInt_undefined: "parseInt None = NaN"
  by (simp add: parseInt_def isStrWhiteSpaceChar_def isDigit_def)

lemma submitted_of_run:
  assumes "data \<in> set (submitted (new_calls w (snd (handler env req w))))"
  shows "\<exists>fd t d team vf tf turl vurl. fst (parseForm env req w) = Inr fd \<and> accepted fd t d team vf tf
     \<and> data = record_of env fd t d turl vurl"
proof (cases rule: handler_cases [of req env w])
  case (createDocument_failed fd t d team vf tf e vb vurl tb turl us)
  with assms have "data = record_of env fd t d turl vurl"
    by (simp add: submitted_append parse_prefix_simps unlink_not_stage)
  with createDocument_failed(2,3) show ?thesis by blast
next
  case (created fd t d team vf tf doc vb vurl tb turl us)
  with assms have "data = record_of env fd t d turl vurl"
    by (simp add: submitted_append parse_prefix_simps unlink_not_stage)
  with created(2,3) show ?thesis by blast
next
  case (not_parsed e)
  with assms show ?thesis by (auto simp: parse_prefix_def split: if_splits)
qed (use assms in \<open>simp_all add: submitted_append parse_prefix_simps unlink_not_stage new_calls_self\<close>)

lemma is_true_iff:
  "is_true f \<longleftrightarrow> f = Single ''true'' \<or> (\<exists>vs. f = Many (''true'' # vs))"
  by (cases f rule: is_true.cases) auto

lemma trailer_run:
  "handler service trailer_request w0 =
     ((200, Success_json message_200
         \<lparr>doc_id = ''doc_1'',
          doc_data = \<lparr>title = ''Trailer'', description = ''A short trailer'', duration = Num 120,
            isPremium = True, genre = Some ''Action'', tags = Some ''trailer,action'',
            thumbnailUrl = ''https://blob/trailer.jpg'', videoUrl = ''https://blob/trailer.mp4'',
            viewsCount = 0, uploadDate = ''2025-01-01T00:00:00.000Z''\<rparr>,
          doc_permissions = [Permission_read Role_any, Permission_update (Role_team ''team_1''),
            Permission_delete (Role_team ''team_1'')]\<rparr>
         ''https://blob/trailer.mp4'' ''https://blob/trailer.jpg''),
      snd (handler service trailer_request w0))"
  "new_calls w0 (snd (handler service trailer_request w0)) =
     [Ev_mkdirSync None, Ev_parse None, Ev_readFile ''tmp/trailer.mp4'' None,
      Ev_put ''trailer.mp4'' ''MP4'' ''public'' (Some ''video/mp4'') (Inr ''https://blob/trailer.mp4''),
      Ev_readFile ''tmp/trailer.jpg'' None,
      Ev_put ''trailer.jpg'' ''JPG'' ''public'' (Some ''image/jpeg'') (Inr ''https://blob/trailer.jpg''),
      Ev_unlink ''tmp/trailer.mp4'' None, Ev_unlink ''tmp/trailer.jpg'' None,
      Ev_createDocument (Some ''db'') (Some ''videos'') ''unique()''
        \<lparr>title = ''Trailer'', description = ''A short trailer'', duration = Num 120,
         isPremium = True, genre = Some ''Action'', tags = Some ''trailer,action'',
         thumbnailUrl = ''https://blob/trailer.jpg'', videoUrl = ''https://blob/trailer.mp4'',
         viewsCount = 0, uploadDate = ''2025-01-01T00:00:00.000Z''\<rparr>
        [Permission_read Role_any, Permission_update (Role_team ''team_1''),
         Permission_delete (Role_team ''team_1'')]
        (Inr \<lparr>doc_id = ''doc_1'',
              doc_data = \<lparr>title = ''Trailer'', description = ''A short trailer'', duration = Num 120,
                isPremium = True, genre = Some ''Action'', tags = Some ''trailer,action'',
                thumbnailUrl = ''https://blob/trailer.jpg'', videoUrl = ''https://blob/trailer.mp4'',
                viewsCount = 0, uploadDate = ''2025-01-01T00:00:00.000Z''\<rparr>,
              doc_permissions = [Permission_read Role_any, Permission_update (Role_team ''team_1''),
                Permission_delete (Role_team ''team_1'')]\<rparr>)]"
  by (simp_all add: eval_defs message_200_def)

text \<open>
  Staged files and the paths of the handler: a run with a failed upload ends with every
  staged file still in place, while the success path, the validation path and the path
  of a failed document creation remove the two files.
\<close>

lemma storage_failure_keeps_staged_files:
  assumes "Ev_put name body acc ctype (Inl e) \<in> set (new_calls w (snd (handler env req w)))"
  shows "\<exists>fd. fst (parseForm env req w) = Inr fd
       \<and> tmp (snd (handler env req w)) = written (staged fd) (tmp w)"
proof (cases rule: handler_cases [of req env w])
  case (not_parsed e')
  with assms show ?thesis by (auto simp: parse_prefix_def split: if_splits)
next
  case (rejected fd us)
  with assms show ?thesis by (auto simp: parse_prefix_def split: if_splits)
next
  case (createDocument_failed fd t d team vf tf e' vb vurl tb turl us)
  with assms show ?thesis by (auto simp: parse_prefix_def split: if_splits)
next
  case (created fd t d team vf tf doc vb vurl tb turl us)
  with assms show ?thesis by (auto simp: parse_prefix_def split: if_splits)
qed (use assms in \<open>auto simp: parse_prefix_def new_calls_self split: if_splits\<close>)

lemma staged_files_removed_on_other_paths:
  "tmp (snd (handler service trailer_request w0)) ''tmp/trailer.mp4'' = None"
  "tmp (snd (handler service trailer_request w0)) ''tmp/trailer.jpg'' = None"
  "fst (handler service (trailer_with ''duration'' (Single ''abc'')) w0) = bad_request"
  "tmp (snd (handler service (trailer_with ''duration'' (Single ''abc'')) w0)) ''tmp/trailer.mp4'' = None"
  "tmp (snd (handler service (trailer_with ''duration'' (Single ''abc'')) w0)) ''tmp/trailer.jpg'' = None"
  "fst (handler service_createDocument_fails trailer_request w0) = internal_error ''document store unavailable''"
  "tmp (snd (handler service_createDocument_fails trailer_request w0)) ''tmp/trailer.mp4'' = None"
  "tmp (snd (handler service_createDocument_fails trailer_request w0)) ''tmp/trailer.jpg'' = None"
  by (simp_all add: eval_defs)

section \<open>Properties of the handler\<close>

text \<open>
  C1, as the code has it: a POST request whose body parses and whose title or description
  is missing or empty, whose duration has no leading integer (\<^verbatim>\<open>parseInt\<close> yields
  \<^verbatim>\<open>NaN\<close>), or which lacks one of the two file parts, is answered with status 400, and
  neither the blob store nor the document store is called. The fields are not trimmed
  and the sign of the duration is not looked at.
\<close>

theorem invalid_request_rejected:
  assumes "req_method req = ''POST''" and "fst (parseForm env req w) = Inr fd"
    and "\<not> truthy (scalar (form_fields fd ''title''))
       \<or> \<not> truthy (scalar (form_fields fd ''description''))
       \<or> isNaN (parseInt (scalar (form_fields fd ''duration'')))
       \<or> scalar (form_files fd ''videoFile'') = None
       \<or> scalar (form_files fd ''thumbnailFile'') = None"
  shows "fst (handler env req w) = bad_request \<and> fst bad_request = 400
       \<and> filter is_put (new_calls w (snd (handler env req w))) = []
       \<and> filter is_createDocument (new_calls w (snd (handler env req w))) = []
       \<and> blob_store (snd (handler env req w)) = blob_store w
       \<and> documents (snd (handler env req w)) = documents w"
proof (cases rule: handler_cases [of req env w])
  case (rejected fd' us)
  then show ?thesis
    by (simp add: unlink_not_stage parse_prefix_simps bad_request_def)
qed (use assms accepted_valid in \<open>auto\<close>)

theorem invalid_request_rejected_witness:
  "req_method (trailer_with ''duration'' (Single ''abc'')) = ''POST''
   \<and> isNaN (parseInt (scalar (form_fields (trailer_form (trailer_fields(''duration'' := Single ''abc''))) ''duration'')))
   \<and> fst (handler service (trailer_with ''duration'' (Single ''abc'')) w0) = bad_request
   \<and> filter is_put (new_calls w0 (snd (handler service (trailer_with ''duration'' (Single ''abc'')) w0))) = []
   \<and> filter is_createDocument (new_calls w0 (snd (handler service (trailer_with ''duration'' (Single ''abc'')) w0))) = []"
proof -
  have m: "req_method (trailer_with ''duration'' (Single ''abc'')) = ''POST''"
    by (simp add: trailer_with_def post_def)
  have n: "isNaN (parseInt (scalar (form_fields (trailer_form (trailer_fields(''duration'' := Single ''abc''))) ''duration'')))"
    by (simp add: trailer_form_def parseInt_def isStrWhiteSpaceChar_def isDigit_def)
  from invalid_request_rejected [of "trailer_with ''duration'' (Single ''abc'')" service w0
      "trailer_form (trailer_fields(''duration'' := Single ''abc''))"] m n trailer_parsed
  show ?thesis by simp
qed

text \<open>
  C1 as it is stated does not hold: a duration of \<^verbatim>\<open>"0"\<close> and a title of three
  spaces both pass the validation; the handler answers 200, uploads both files and
  submits the record.
\<close>

theorem zero_duration_and_blank_title_accepted:
  "fst (fst (handler service (trailer_with ''duration'' (Single ''0'')) w0)) = 200
   \<and> length (filter is_put (new_calls w0 (snd (handler service (trailer_with ''duration'' (Single ''0'')) w0)))) = 2
   \<and> map duration (submitted (new_calls w0 (snd (handler service (trailer_with ''duration'' (Single ''0'')) w0)))) = [Num 0]
   \<and> fst (fst (handler service (trailer_with ''title'' (Single ''   '')) w0)) = 200
   \<and> length (filter is_put (new_calls w0 (snd (handler service (trailer_with ''title'' (Single ''   '')) w0)))) = 2
   \<and> map title (submitted (new_calls w0 (snd (handler service (trailer_with ''title'' (Single ''   '')) w0)))) = [''   '']"
  by (simp add: eval_defs)

text \<open>
  C2 at a well-formed request whose video upload, or whose thumbnail upload, is rejected by
  the blob store: the handler answers 500 and both staged files are still in the staging
  directory, since the \<^verbatim>\<open>catch\<close> block removes nothing.
\<close>

theorem staged_files_left_after_storage_failure:
  "fst (handler service_video_put_fails trailer_request w0) = internal_error ''blob store unavailable''
   \<and> tmp (snd (handler service_video_put_fails trailer_request w0)) ''tmp/trailer.mp4'' = Some ''MP4''
   \<and> tmp (snd (handler service_video_put_fails trailer_request w0)) ''tmp/trailer.jpg'' = Some ''JPG''
   \<and> fst (handler service_thumbnail_put_fails trailer_request w0) = internal_error ''blob store unavailable''
   \<and> tmp (snd (handler service_thumbnail_put_fails trailer_request w0)) ''tmp/trailer.mp4'' = Some ''MP4''
   \<and> tmp (snd (handler service_thumbnail_put_fails trailer_request w0)) ''tmp/trailer.jpg'' = Some ''JPG''"
  by (simp add: eval_defs)

text \<open>
  C3, as the code has it: in a run whose uploads are a successful one followed by a failed
  one, the response is the generic status 500 with the message of the failed upload as
  \<^verbatim>\<open>details\<close>, the document store is not called, and the blob stored first stays in
  the blob store.
\<close>

theorem thumbnail_storage_failure:
  assumes "filter is_put (new_calls w (snd (handler env req w)))
           = [Ev_put vn vb va vc (Inr vurl), Ev_put tn tb ta tc (Inl e)]"
  shows "fst (handler env req w) = internal_error e
       \<and> filter is_createDocument (new_calls w (snd (handler env req w))) = []
       \<and> documents (snd (handler env req w)) = documents w
       \<and> blob_store (snd (handler env req w)) = blob_store w @ [stored vn vb vc vurl]"
proof (cases rule: handler_cases [of req env w])
  case (put_thumbnail_failed fd t d team vf tf e' vb' vurl' tb')
  with assms show ?thesis
    by (simp add: parse_prefix_simps)
next
  case (not_parsed e')
  with assms show ?thesis
    by (auto simp: parse_prefix_def)
qed (use assms in \<open>simp_all add: unlink_not_stage parse_prefix_simps new_calls_self\<close>)

theorem thumbnail_storage_failure_witness:
  "filter is_put (new_calls w0 (snd (handler service_thumbnail_put_fails trailer_request w0)))
     = [Ev_put ''trailer.mp4'' ''MP4'' ''public'' (Some ''video/mp4'') (Inr ''https://blob/trailer.mp4''),
        Ev_put ''trailer.jpg'' ''JPG'' ''public'' (Some ''image/jpeg'') (Inl ''blob store unavailable'')]
   \<and> fst (handler service_thumbnail_put_fails trailer_request w0) = internal_error ''blob store unavailable''
   \<and> filter is_createDocument (new_calls w0 (snd (handler service_thumbnail_put_fails trailer_request w0))) = []
   \<and> documents (snd (handler service_thumbnail_put_fails trailer_request w0)) = []
   \<and> blob_store (snd (handler service_thumbnail_put_fails trailer_request w0))
       = [stored ''trailer.mp4'' ''MP4'' (Some ''video/mp4'') ''https://blob/trailer.mp4'']"
proof -
  have h: "filter is_put (new_calls w0 (snd (handler service_thumbnail_put_fails trailer_request w0)))
     = [Ev_put ''trailer.mp4'' ''MP4'' ''public'' (Some ''video/mp4'') (Inr ''https://blob/trailer.mp4''),
        Ev_put ''trailer.jpg'' ''JPG'' ''public'' (Some ''image/jpeg'') (Inl ''blob store unavailable'')]"
    by (simp add: eval_defs)
  have d: "documents w0 = []" "blob_store w0 = []" by (simp_all add: w0_def)
  from thumbnail_storage_failure [OF h] h d show ?thesis by simp
qed

text \<open>
  C3 as it is stated does not hold: the response to a failed thumbnail upload names no
  stage; it is the very response given when the video upload fails with the same message.
\<close>

theorem thumbnail_failure_response_untagged:
  "fst (handler service_thumbnail_put_fails trailer_request w0)
     = (500, Error_details_json ''Internal Server Error'' message_500 ''blob store unavailable'')
   \<and> filter is_put (new_calls w0 (snd (handler service_thumbnail_put_fails trailer_request w0)))
     = [Ev_put ''trailer.mp4'' ''MP4'' ''public'' (Some ''video/mp4'') (Inr ''https://blob/trailer.mp4''),
        Ev_put ''trailer.jpg'' ''JPG'' ''public'' (Some ''image/jpeg'') (Inl ''blob store unavailable'')]
   \<and> fst (handler service_video_put_fails trailer_request w0)
     = fst (handler service_thumbnail_put_fails trailer_request w0)"
  by (simp add: eval_defs)

text \<open>
  C4: when a POST request passes the validation and no call fails, the run uploads the
  video and then the thumbnail, submits exactly one record, whose \<^verbatim>\<open>videoUrl\<close> and
  \<^verbatim>\<open>thumbnailUrl\<close> are the urls the two uploads returned and whose \<^verbatim>\<open>viewsCount\<close> is 0,
  and the document store holds one more document.
\<close>

theorem successful_run_creates_one_record:
  assumes "req_method req = ''POST''" and "fst (parseForm env req w) = Inr fd"
    and "\<not> invalid (scalar (form_fields fd ''title'')) (scalar (form_fields fd ''description''))
          (parseInt (scalar (form_fields fd ''duration''))) (scalar (form_files fd ''videoFile''))
          (scalar (form_files fd ''thumbnailFile'')) (scalar (form_fields fd ''teamId''))"
    and "\<forall>x\<in>set (new_calls w (snd (handler env req w))). \<not> failed x"
  shows "\<exists>vf tf vb vurl tb turl data doc.
           scalar (form_files fd ''videoFile'') = Some vf
         \<and> scalar (form_files fd ''thumbnailFile'') = Some tf
         \<and> filter is_put (new_calls w (snd (handler env req w)))
             = [Ev_put (blob_name vf) vb ''public'' (mimetype vf) (Inr vurl),
                Ev_put (blob_name tf) tb ''public'' (mimetype tf) (Inr turl)]
         \<and> submitted (new_calls w (snd (handler env req w))) = [data]
         \<and> videoUrl data = vurl \<and> thumbnailUrl data = turl \<and> viewsCount data = 0
         \<and> documents (snd (handler env req w)) = documents w @ [doc]
         \<and> fst (handler env req w) = (200, Success_json message_200 doc vurl turl)"
proof (cases rule: handler_cases [of req env w])
  case (created fd' t d team vf tf doc vb vurl tb turl us)
  with assms(2) have fd: "fd' = fd" by simp
  have acc: "scalar (form_files fd ''videoFile'') = Some vf"
    "scalar (form_files fd ''thumbnailFile'') = Some tf"
    using created(3) fd by (simp_all add: accepted_def)
  show ?thesis
    using created(4-) acc
    by (intro exI [of _ vf] exI [of _ tf] exI [of _ vb] exI [of _ vurl] exI [of _ tb] exI [of _ turl]
          exI [of _ "record_of env fd' t d turl vurl"] exI [of _ doc])
       (simp add: parse_prefix_simps unlink_not_stage submitted_append record_of_def videoData_def)
next
  case (not_parsed e)
  with assms show ?thesis by simp
next
  case (rejected fd' us)
  with assms show ?thesis by simp
qed (use assms in \<open>simp_all\<close>)

theorem successful_run_creates_one_record_witness:
  "req_method trailer_request = ''POST''
   \<and> filter failed (new_calls w0 (snd (handler service trailer_request w0))) = []
   \<and> filter is_put (new_calls w0 (snd (handler service trailer_request w0)))
       = [Ev_put ''trailer.mp4'' ''MP4'' ''public'' (Some ''video/mp4'') (Inr ''https://blob/trailer.mp4''),
          Ev_put ''trailer.jpg'' ''JPG'' ''public'' (Some ''image/jpeg'') (Inr ''https://blob/trailer.jpg'')]
   \<and> (\<exists>data. submitted (new_calls w0 (snd (handler service trailer_request w0))) = [data]
        \<and> videoUrl data = ''https://blob/trailer.mp4''
        \<and> thumbnailUrl data = ''https://blob/trailer.jpg'' \<and> viewsCount data = 0)"
proof -
  have m: "req_method trailer_request = ''POST''"
    by (simp add: trailer_request_def post_def)
  have p: "fst (parseForm service trailer_request w0) = Inr (trailer_form trailer_fields)"
    by (simp add: eval_defs)
  have v: "\<not> invalid (scalar (form_fields (trailer_form trailer_fields) ''title''))
          (scalar (form_fields (trailer_form trailer_fields) ''description''))
          (parseInt (scalar (form_fields (trailer_form trailer_fields) ''duration'')))
          (scalar (form_files (trailer_form trailer_fields) ''videoFile''))
          (scalar (form_files (trailer_form trailer_fields) ''thumbnailFile''))
          (scalar (form_fields (trailer_form trailer_fields) ''teamId''))"
    by (simp add: eval_defs)
  have f: "\<forall>x\<in>set (new_calls w0 (snd (handler service trailer_request w0))). \<not> failed x"
    unfolding trailer_run(2) by simp
  have n: "filter failed (new_calls w0 (snd (handler service trailer_request w0))) = []"
    unfolding trailer_run(2) by simp
  from successful_run_creates_one_record [OF m p v f] m n
  show ?thesis unfolding trailer_run(2) by auto
qed

text \<open>
  C5: in every run answered with status 200 the document store was called exactly once, and
  the access-control list of that call grants read to any principal and update and delete
  to the team named by the \<^verbatim>\<open>teamId\<close> field of the form, and nothing else.
\<close>

theorem record_access_control_list:
  assumes "fst (fst (handler env req w)) = 200"
  shows "\<exists>fd team db coll ident data doc.
           fst (parseForm env req w) = Inr fd
         \<and> scalar (form_fields fd ''teamId'') = Some team \<and> team \<noteq> []
         \<and> filter is_createDocument (new_calls w (snd (handler env req w)))
             = [Ev_createDocument db coll ident data
                  [Permission_read Role_any, Permission_update (Role_team team),
                   Permission_delete (Role_team team)] (Inr doc)]"
proof (cases rule: handler_cases [of req env w])
  case (created fd t d team vf tf doc vb vurl tb turl us)
  then show ?thesis
    by (intro exI [of _ fd] exI [of _ team] exI [of _ "APPWRITE_DATABASE_ID env"]
          exI [of _ "APPWRITE_COLLECTION_ID env"] exI [of _ "ID_unique env"]
          exI [of _ "record_of env fd t d turl vurl"] exI [of _ doc])
       (simp add: parse_prefix_simps unlink_not_stage accepted_def permissions_def)
qed (use assms in \<open>simp_all add: method_not_allowed_def bad_request_def internal_error_def\<close>)

theorem record_access_control_list_witness:
  "fst (fst (handler service trailer_request w0)) = 200
   \<and> (\<exists>db coll ident data doc.
        filter is_createDocument (new_calls w0 (snd (handler service trailer_request w0)))
          = [Ev_createDocument db coll ident data
               [Permission_read Role_any, Permission_update (Role_team ''team_1''),
                Permission_delete (Role_team ''team_1'')] (Inr doc)])"
proof -
  have h: "fst (fst (handler service trailer_request w0)) = 200"
    by (subst trailer_run(1)) simp
  from record_access_control_list [OF h] h show ?thesis
    unfolding trailer_run(2) by auto
qed

text \<open>
  C6: the extracted \<^verbatim>\<open>isPremium\<close> is true exactly when the field is the text
  \<^verbatim>\<open>"true"\<close> (as a string, or as the first element of the array formidable
  delivers); an absent field, \<^verbatim>\<open>"1"\<close> and \<^verbatim>\<open>"TRUE"\<close> give false; and every record
  submitted to the document store carries the extracted value.
\<close>

theorem isPremium_only_literal_true:
  "(is_true f \<longleftrightarrow> f = Single ''true'' \<or> (\<exists>vs. f = Many (''true'' # vs)))
   \<and> is_true Absent = False \<and> is_true (Single ''1'') = False \<and> is_true (Single ''TRUE'') = False
   \<and> (\<forall>data\<in>set (submitted (new_calls w (snd (handler env req w)))).
        \<exists>fd. fst (parseForm env req w) = Inr fd
           \<and> isPremium data = is_true (form_fields fd ''isPremium''))"
proof -
  have "\<exists>fd. fst (parseForm env req w) = Inr fd
           \<and> isPremium data = is_true (form_fields fd ''isPremium'')"
    if "data \<in> set (submitted (new_calls w (snd (handler env req w))))" for data
  proof -
    from submitted_of_run [OF that] obtain fd t d turl vurl where
      "fst (parseForm env req w) = Inr fd" "data = record_of env fd t d turl vurl"
      by blast
    then show ?thesis
      by (simp add: record_of_def videoData_def)
  qed
  then show ?thesis
    using is_true_iff [of f] by simp
qed

theorem isPremium_only_literal_true_witness:
  "is_true (Single ''true'') \<and> \<not> is_true (Single ''yes'')
   \<and> (\<exists>data. data \<in> set (submitted (new_calls w0 (snd (handler service trailer_request w0))))
        \<and> isPremium data = is_true (Many [''true'']))"
proof -
  have p: "fst (parseForm service trailer_request w0) = Inr (trailer_form trailer_fields)"
    by (simp add: eval_defs)
  have f: "form_fields (trailer_form trailer_fields) ''isPremium'' = Many [''true'']"
    by (simp add: trailer_form_def trailer_fields_def)
  have ex: "\<exists>data. data \<in> set (submitted (new_calls w0 (snd (handler service trailer_request w0))))"
    unfolding trailer_run(2) by simp
  from isPremium_only_literal_true [of "Single ''true''" w0 service trailer_request]
    isPremium_only_literal_true [of "Single ''yes''" w0 service trailer_request] ex p f
  show ?thesis by fastforce
qed

text \<open>
  C7: the storage and persistence calls of any run form one of six sequences: none; the
  video upload, failed; the video upload alone (the thumbnail could not be read); the video
  upload and the failed thumbnail upload; both uploads and the failed document creation;
  both uploads and the document creation. So the document store is called only after the
  video upload and then the thumbnail upload have succeeded, nothing follows a failed
  stage, and the document store gains a document only in the last case.
\<close>

theorem stages_run_in_order:
  "(stage_calls (new_calls w (snd (handler env req w))) = []
      \<and> documents (snd (handler env req w)) = documents w)
   \<or> (\<exists>fd t d team vf tf vb vurl tb turl e doc.
        fst (parseForm env req w) = Inr fd \<and> accepted fd t d team vf tf \<and>
        (stage_calls (new_calls w (snd (handler env req w)))
           = [Ev_put (blob_name vf) vb ''public'' (mimetype vf) (Inl e)]
           \<and> documents (snd (handler env req w)) = documents w
         \<or> stage_calls (new_calls w (snd (handler env req w)))
           = [Ev_put (blob_name vf) vb ''public'' (mimetype vf) (Inr vurl)]
           \<and> documents (snd (handler env req w)) = documents w
         \<or> stage_calls (new_calls w (snd (handler env req w)))
           = [Ev_put (blob_name vf) vb ''public'' (mimetype vf) (Inr vurl),
              Ev_put (blob_name tf) tb ''public'' (mimetype tf) (Inl e)]
           \<and> documents (snd (handler env req w)) = documents w
         \<or> stage_calls (new_calls w (snd (handler env req w)))
           = [Ev_put (blob_name vf) vb ''public'' (mimetype vf) (Inr vurl),
              Ev_put (blob_name tf) tb ''public'' (mimetype tf) (Inr turl),
              Ev_createDocument (APPWRITE_DATABASE_ID env) (APPWRITE_COLLECTION_ID env)
                (ID_unique env) (record_of env fd t d turl vurl) (permissions team) (Inl e)]
           \<and> documents (snd (handler env req w)) = documents w
         \<or> stage_calls (new_calls w (snd (handler env req w)))
           = [Ev_put (blob_name vf) vb ''public'' (mimetype vf) (Inr vurl),
              Ev_put (blob_name tf) tb ''public'' (mimetype tf) (Inr turl),
              Ev_createDocument (APPWRITE_DATABASE_ID env) (APPWRITE_COLLECTION_ID env)
                (ID_unique env) (record_of env fd t d turl vurl) (permissions team) (Inr doc)]
           \<and> documents (snd (handler env req w)) = documents w @ [doc]
           \<and> fst (handler env req w) = (200, Success_json message_200 doc vurl turl)))"
proof (cases rule: handler_cases [of req env w])
  case not_post
  then show ?thesis by (simp add: new_calls_self stage_calls_def)
next
  case (not_parsed e)
  then show ?thesis by (auto simp: stage_calls_def parse_prefix_def)
next
  case (rejected fd us)
  then show ?thesis by (simp add: stage_calls_append parse_prefix_simps unlink_not_stage)
next
  case (read_video_failed fd t d team vf tf e)
  then show ?thesis by (simp add: stage_calls_append parse_prefix_simps) (simp add: stage_calls_def)
next
  case (put_video_failed fd t d team vf tf e vb)
  have "stage_calls (new_calls w (snd (handler env req w)))
           = [Ev_put (blob_name vf) vb ''public'' (mimetype vf) (Inl e)]"
    unfolding put_video_failed(5) stage_calls_append parse_prefix_simps by (simp add: stage_calls_def)
  with put_video_failed show ?thesis by blast
next
  case (read_thumbnail_failed fd t d team vf tf e vb vurl)
  have "stage_calls (new_calls w (snd (handler env req w)))
           = [Ev_put (blob_name vf) vb ''public'' (mimetype vf) (Inr vurl)]"
    unfolding read_thumbnail_failed(5) stage_calls_append parse_prefix_simps by (simp add: stage_calls_def)
  with read_thumbnail_failed show ?thesis by blast
next
  case (put_thumbnail_failed fd t d team vf tf e vb vurl tb)
  have "stage_calls (new_calls w (snd (handler env req w)))
           = [Ev_put (blob_name vf) vb ''public'' (mimetype vf) (Inr vurl),
              Ev_put (blob_name tf) tb ''public'' (mimetype tf) (Inl e)]"
    unfolding put_thumbnail_failed(5) stage_calls_append parse_prefix_simps by (simp add: stage_calls_def)
  with put_thumbnail_failed show ?thesis by blast
next
  case (createDocument_failed fd t d team vf tf e vb vurl tb turl us)
  have "stage_calls (new_calls w (snd (handler env req w)))
           = [Ev_put (blob_name vf) vb ''public'' (mimetype vf) (Inr vurl),
              Ev_put (blob_name tf) tb ''public'' (mimetype tf) (Inr turl),
              Ev_createDocument (APPWRITE_DATABASE_ID env) (APPWRITE_COLLECTION_ID env)
                (ID_unique env) (record_of env fd t d turl vurl) (permissions team) (Inl e)]"
    unfolding createDocument_failed(5) stage_calls_append parse_prefix_simps
      unlink_not_stage(3) [OF createDocument_failed(7)]
    by (simp add: stage_calls_def)
  with createDocument_failed show ?thesis by blast
next
  case (created fd t d team vf tf doc vb vurl tb turl us)
  have "stage_calls (new_calls w (snd (handler env req w)))
           = [Ev_put (blob_name vf) vb ''public'' (mimetype vf) (Inr vurl),
              Ev_put (blob_name tf) tb ''public'' (mimetype tf) (Inr turl),
              Ev_createDocument (APPWRITE_DATABASE_ID env) (APPWRITE_COLLECTION_ID env)
                (ID_unique env) (record_of env fd t d turl vurl) (permissions team) (Inr doc)]"
    unfolding created(5) stage_calls_append parse_prefix_simps
      unlink_not_stage(3) [OF created(7)]
    by (simp add: stage_calls_def)
  with created show ?thesis by blast
qed

theorem stages_run_in_order_witness:
  "documents (snd (handler service trailer_request w0)) \<noteq> documents w0
   \<and> (\<exists>doc vurl turl.
        fst (handler service trailer_request w0) = (200, Success_json message_200 doc vurl turl)
        \<and> documents (snd (handler service trailer_request w0)) = documents w0 @ [doc])"
proof -
  have d: "documents (snd (handler service trailer_request w0)) \<noteq> documents w0"
    by (simp add: eval_defs)
  from stages_run_in_order [of w0 service trailer_request] d
  show ?thesis by blast
qed

text \<open>
  C8, as the code has it: the staging name of an upload is the original file name the
  client sent, whenever that is not empty; it has no component that depends on the
  request, so two uploads with the same original file name get the same staging name.
\<close>

theorem staging_name_is_original_filename:
  assumes "part_originalFilename p = Some f" and "part_originalFilename q = Some f" and "f \<noteq> []"
  shows "filename name ext p = f \<and> filename name' ext' q = f"
  using assms by (simp add: filename_def)

theorem staging_name_is_original_filename_witness:
  "part_originalFilename upload_a = Some ''clip.mp4'' \<and> part_originalFilename upload_b = Some ''clip.mp4''
   \<and> filename ''clip'' ''.mp4'' upload_a = ''clip.mp4'' \<and> filename ''clip'' ''.mp4'' upload_b = ''clip.mp4''"
proof -
  have h: "part_originalFilename upload_a = Some ''clip.mp4''"
    "part_originalFilename upload_b = Some ''clip.mp4''" "''clip.mp4'' \<noteq> []"
    by (simp_all add: upload_a_def upload_b_def)
  from staging_name_is_original_filename [OF h, of "''clip''" "''.mp4''" "''clip''" "''.mp4''"] h
  show ?thesis by simp
qed

text \<open>
  C8 as it is stated does not hold: two different uploads are given the same staging name.
\<close>

theorem staging_names_collide:
  "upload_a \<noteq> upload_b \<and> filename ''clip'' ''.mp4'' upload_a = filename ''clip'' ''.mp4'' upload_b"
  by (simp add: upload_a_def upload_b_def filename_def)

text \<open>
  C9: a request whose method is not POST is answered with status 405 and leaves the world
  as it was: nothing is parsed, stored or persisted.
\<close>

theorem non_post_rejected:
  assumes "req_method req \<noteq> ''POST''"
  shows "handler env req w = (method_not_allowed, w) \<and> fst method_not_allowed = 405
         \<and> new_calls w (snd (handler env req w)) = []"
  using assms by (simp add: handler_def method_not_allowed_def new_calls_def)

theorem non_post_rejected_witness:
  "req_method trailer_get \<noteq> ''POST'' \<and> handler service trailer_get w0 = (method_not_allowed, w0)
   \<and> new_calls w0 (snd (handler service trailer_get w0)) = []"
proof -
  have h: "req_method trailer_get \<noteq> ''POST''" by (simp add: trailer_get_def)
  from non_post_rejected [OF h, of service w0] h show ?thesis by (simp add: new_calls_def)
qed

text \<open>
  C10, as the code has it: if the duration text has a leading integer of magnitude at most
  \<open>2\<^sup>5\<^sup>3\<close>, \<^verbatim>\<open>parseInt\<close> yields that integer; it yields \<^verbatim>\<open>NaN\<close> exactly for the
  texts without a leading integer (and for a missing field); the validation depends on
  the duration only through \<^verbatim>\<open>isNaN\<close>; and every record submitted to the document store
  carries the value \<^verbatim>\<open>parseInt\<close> gave.
\<close>

theorem duration_is_leading_integer:
  "(leading_integer s ws sg ds rest \<and> digits_value ds \<le> 2 ^ 53
      \<longrightarrow> parseInt (Some s) = Num (signed_value sg ds))
   \<and> (isNaN (parseInt (Some s)) \<longleftrightarrow> \<not> (\<exists>ws sg ds rest. leading_integer s ws sg ds rest))
   \<and> isNaN (parseInt None)
   \<and> (invalid t d (parseInt v) vf tf team \<longleftrightarrow> isNaN (parseInt v) \<or> invalid t d (Num 1) vf tf team)
   \<and> (\<forall>data\<in>set (submitted (new_calls w (snd (handler env req w)))).
        \<exists>fd. fst (parseForm env req w) = Inr fd
           \<and> duration data = parseInt (scalar (form_fields fd ''duration'')))"
proof -
  have 1: "leading_integer s ws sg ds rest \<and> digits_value ds \<le> 2 ^ 53
      \<longrightarrow> parseInt (Some s) = Num (signed_value sg ds)"
  proof (intro impI, elim conjE)
    assume li: "leading_integer s ws sg ds rest" and le: "digits_value ds \<le> 2 ^ 53"
    show "parseInt (Some s) = Num (signed_value sg ds)"
      unfolding parseInt_leading_integer [OF li] to_number_exact [OF le] signed_value_def
      by simp
  qed
  have 2: "invalid t d (parseInt v) vf tf team \<longleftrightarrow> isNaN (parseInt v) \<or> invalid t d (Num 1) vf tf team"
    by (auto simp: invalid_def)
  have 3: "\<exists>fd. fst (parseForm env req w) = Inr fd
           \<and> duration data = parseInt (scalar (form_fields fd ''duration''))"
    if "data \<in> set (submitted (new_calls w (snd (handler env req w))))" for data
  proof -
    from submitted_of_run [OF that] obtain fd t d turl vurl where
      "fst (parseForm env req w) = Inr fd" "data = record_of env fd t d turl vurl"
      by blast
    then show ?thesis
      by (simp add: record_of_def videoData_def)
  qed
  from 1 2 3 parseInt_NaN_iff [of s] parseInt_undefined show ?thesis
    by simp
qed

theorem duration_is_leading_integer_witness:
  "leading_integer ''120abc'' [] [] ''120'' ''abc'' \<and> parseInt (Some ''120abc'') = Num 120
   \<and> leading_integer ''12.9'' [] [] ''12'' ''.9'' \<and> parseInt (Some ''12.9'') = Num 12
   \<and> \<not> (\<exists>ws sg ds rest. leading_integer ''abc'' ws sg ds rest)
   \<and> (\<exists>data. data \<in> set (submitted (new_calls w0 (snd (handler service trailer_request w0))))
        \<and> duration data = parseInt (Some ''120''))"
proof -
  have a: "leading_integer ''120abc'' [] [] ''120'' ''abc'' \<and> digits_value ''120'' \<le> 2 ^ 53"
    and b: "leading_integer ''12.9'' [] [] ''12'' ''.9'' \<and> digits_value ''12'' \<le> 2 ^ 53"
    by (simp_all add: leading_integer_def isDigit_def digits_value_def digitVal_def)
  have v: "signed_value [] ''120'' = 120" "signed_value [] ''12'' = 12"
    by (simp_all add: signed_value_def digits_value_def digitVal_def)
  have n: "isNaN (parseInt (Some ''abc''))"
    by (simp add: parseInt_def isStrWhiteSpaceChar_def isDigit_def)
  have p: "fst (parseForm service trailer_request w0) = Inr (trailer_form trailer_fields)"
    by (simp add: eval_defs)
  have f: "scalar (form_fields (trailer_form trailer_fields) ''duration'') = Some ''120''"
    by (simp add: trailer_form_def trailer_fields_def)
  have ex: "\<exists>data. data \<in> set (submitted (new_calls w0 (snd (handler service trailer_request w0))))"
    unfolding trailer_run(2) by simp
  from duration_is_leading_integer [of "''120abc''" "[]" "[]" "''120''" "''abc''" _ _ _ _ _ _ w0 service trailer_request]
    duration_is_leading_integer [of "''12.9''" "[]" "[]" "''12''" "''.9''" _ _ _ _ _ _ w0 service trailer_request]
    duration_is_leading_integer [of "''abc''" _ _ _ _ _ _ _ _ _ _ w0 service trailer_request]
    a b v n p f ex
  show ?thesis by fastforce
qed

text \<open>
  C10 as it is stated does not hold for every text: a Number has 53 significant bits, and
  the duration \<^verbatim>\<open>"9007199254740993"\<close> is accepted and stored as 9007199254740992.
\<close>

theorem large_duration_is_rounded:
  "leading_integer ''9007199254740993'' [] [] ''9007199254740993'' []
   \<and> signed_value [] ''9007199254740993'' = 9007199254740993
   \<and> parseInt (Some ''9007199254740993'') = Num 9007199254740992
   \<and> fst (fst (handler service (trailer_with ''duration'' (Single ''9007199254740993'')) w0)) = 200
   \<and> map duration (submitted (new_calls w0
        (snd (handler service (trailer_with ''duration'' (Single ''9007199254740993'')) w0))))
       = [Num 9007199254740992]"
  by (simp add: eval_defs leading_integer_def signed_value_def bitlen.simps)

end
